theory Spec2Isabelle
  imports Main
begin

section \<open>Python values and the outside world\<close>

text \<open>
  The client in \<^verbatim>\<open>insysbio_db.py\<close> talks to a file system, a clock and an HTTP server.
  All three are made explicit: every method becomes a function from the manager object
  and the world to a result, the updated manager object and the updated world. A raised
  exception is the \<open>Inl\<close> branch of the result; the state reached before the raise is
  returned with it.
\<close>

type_synonym path = string

text \<open>A naive \<^verbatim>\<open>datetime\<close>: microseconds since 0001-01-01T00:00:00.\<close>

type_synonym datetime = int

text \<open>
  What \<^verbatim>\<open>json.load\<close> produces. A dict is an association list in insertion order.
  JSON numbers with a fraction or an exponent (Python floats) are not modelled.
\<close>

datatype json =
    JNull
  | JBool bool
  | JNum int
  | JStr string
  | JArr "json list"
  | JObj "(string \<times> json) list"

text \<open>
  The exceptions of the program. \<open>NotFoundError caption missing\<close> is the
  \<^verbatim>\<open>ValueError\<close> of \<^verbatim>\<open>select_elements\<close>, whose message joins
  the Python set \<^verbatim>\<open>missing\<close> in its iteration order; Python leaves that order
  open, so the model keeps the set.
\<close>

datatype error =
    ValueError string
  | NotFoundError string "string set"
  | KeyError string
  | TypeError
  | IndexError
  | AttributeError
  | OverflowError
  | JSONDecodeError
  | FileNotFoundError path
  | Exception string

text \<open>
  A piece of text (a file's content, a response's payload), classified by what the JSON
  decoder makes of it: \<open>Json v\<close> is text that decodes to \<open>v\<close> (and what
  \<^verbatim>\<open>json.dump\<close> writes for \<open>v\<close>), \<open>Text s\<close> is text \<open>s\<close> that the
  decoder rejects, such as the empty string.
\<close>

datatype payload = Text string | Json json

record response =
  status_code :: int
  body :: payload

text \<open>
  \<^verbatim>\<open>requests.post(url, data=body)\<close> and
  \<^verbatim>\<open>requests.get(url, params=params, headers=headers)\<close>.
\<close>

datatype request =
    Post string "(string \<times> string) list"
  | Get string "(string \<times> string) list option" "(string \<times> string) list"

text \<open>
  A \<^verbatim>\<open>pandas.DataFrame\<close> built from a list of records: the column labels and
  the rows, each row giving its cells by column label (a missing cell is NaN).
\<close>

record dataframe =
  columns :: "string list"
  rows :: "(string \<times> json) list list"

text \<open>Class \<^verbatim>\<open>BearerRequestToken\<close>.\<close>

record bearer =
  bt_token :: json
  bt_expires_in :: "datetime option"
  bt_response :: "response option"

text \<open>Class \<^verbatim>\<open>APICallResult\<close>.\<close>

record api_call_result =
  content :: payload
  response :: response

text \<open>Class \<^verbatim>\<open>DBManagerBase\<close> and its subclass \<^verbatim>\<open>FIVEDBManager\<close>.\<close>

record manager =
  url :: string
  path_to_credentials :: path
  token :: "bearer option"
  system_type :: string
  headers_df :: dataframe

record fivedb = manager +
  process_types :: json
  parameters :: json
  cell_types :: json
  stimulateds :: json
  patient_states :: json
  products :: json
  daughter_cells :: json
  regulators :: json
  modifiers :: json

text \<open>
  The world: regular files by path, the directory \<^verbatim>\<open>tempfile.gettempdir()\<close>
  returns, the successive readings of \<^verbatim>\<open>datetime.now()\<close> with the number of
  readings taken so far, and the server, which answers a request knowing the requests
  sent before it; \<open>sent\<close> logs every request in order. The server always answers
  (no transport exception), and files can always be opened for writing.
\<close>

record world =
  files :: "path \<rightharpoonup> payload"
  tempdir :: path
  clock :: "nat \<Rightarrow> datetime"
  reads :: nat
  server :: "request list \<Rightarrow> request \<Rightarrow> response"
  sent :: "request list"

text \<open>
  Library functions the program calls and whose code is not part of the repository:
  \<^verbatim>\<open>datetime.fromisoformat\<close> on a string (an error too when the string
  carries a UTC offset, since comparing such a value with \<^verbatim>\<open>datetime.now()\<close>
  raises), \<^verbatim>\<open>datetime.isoformat\<close>, \<^verbatim>\<open>int\<close> on a string,
  \<^verbatim>\<open>str\<close> on a value that is not a string, the text of a JSON file, and
  \<^verbatim>\<open>pandas.DataFrame\<close> on anything but a list of dicts.
\<close>

record pylib =
  fromisoformat :: "string \<Rightarrow> error + datetime"
  isoformat :: "datetime \<Rightarrow> string"
  int_of_str :: "string \<Rightarrow> error + int"
  str_of :: "json \<Rightarrow> string"
  json_text :: "json \<Rightarrow> string"
  DataFrame_other :: "json \<Rightarrow> error + dataframe"

subsection \<open>Python operators on JSON values\<close>

text \<open>Truth value of a Python object, as \<^verbatim>\<open>if x\<close> and \<^verbatim>\<open>not x\<close> test it.\<close>

fun truthy :: "json \<Rightarrow> bool" where
  "truthy JNull = False"
| "truthy (JBool b) = b"
| "truthy (JNum n) = (n \<noteq> 0)"
| "truthy (JStr s) = (s \<noteq> [])"
| "truthy (JArr xs) = (xs \<noteq> [])"
| "truthy (JObj kvs) = (kvs \<noteq> [])"

text \<open>\<^verbatim>\<open>x[k]\<close> for a string key: only a dict can be indexed by a string.\<close>

fun py_getitem :: "json \<Rightarrow> string \<Rightarrow> error + json" where
  "py_getitem (JObj kvs) k = (case map_of kvs k of None \<Rightarrow> Inl (KeyError k) | Some v \<Rightarrow> Inr v)"
| "py_getitem _ k = Inl TypeError"

text \<open>\<^verbatim>\<open>x.get(k, d)\<close>: only a dict has the method.\<close>

fun dict_get :: "json \<Rightarrow> string \<Rightarrow> json \<Rightarrow> error + json" where
  "dict_get (JObj kvs) k d = Inr (case map_of kvs k of None \<Rightarrow> d | Some v \<Rightarrow> v)"
| "dict_get _ k d = Inl AttributeError"

text \<open>
  A Python string is kept as the bytes of its UTF-8 encoding. \<open>characters s\<close> are
  the characters of \<open>s\<close>, each as its bytes: a byte that continues no character,
  followed by its continuation bytes.
\<close>

definition is_continuation :: "char \<Rightarrow> bool" where
  "is_continuation c \<longleftrightarrow> 128 \<le> (of_char c :: nat) \<and> (of_char c :: nat) < 192"

fun characters :: "string \<Rightarrow> string list" where
  "characters [] = []"
| "characters (c # cs) =
     (case characters cs of
        [] \<Rightarrow> [[c]]
      | [] # xs \<Rightarrow> [c] # [] # xs
      | (b # bs) # xs \<Rightarrow>
          if is_continuation b then (c # b # bs) # xs else [c] # (b # bs) # xs)"

fun substring :: "string \<Rightarrow> string \<Rightarrow> bool" where
  "substring s [] = (s = [])"
| "substring s (c # cs) = (take (length s) (c # cs) = s \<or> substring s cs)"

text \<open>
  \<^verbatim>\<open>k in x\<close> for a string \<open>k\<close>: a key of a dict, an element of a list, a
  substring of a string; other values are not iterable.
\<close>

fun py_contains :: "string \<Rightarrow> json \<Rightarrow> error + bool" where
  "py_contains k (JObj kvs) = Inr (k \<in> set (map fst kvs))"
| "py_contains k (JArr xs) = Inr (JStr k \<in> set xs)"
| "py_contains k (JStr s) = Inr (substring k s)"
| "py_contains k _ = Inl TypeError"

fun unhashable :: "json \<Rightarrow> bool" where
  "unhashable (JArr xs) = True"
| "unhashable (JObj kvs) = True"
| "unhashable _ = False"

text \<open>
  The elements \<^verbatim>\<open>set(x)\<close> collects: the items of a list (which must be hashable),
  the characters of a string, the keys of a dict.
\<close>

fun py_set :: "json \<Rightarrow> error + json list" where
  "py_set (JArr xs) = (if list_ex unhashable xs then Inl TypeError else Inr xs)"
| "py_set (JStr s) = Inr (map JStr (characters s))"
| "py_set (JObj kvs) = Inr (map (\<lambda>kv. JStr (fst kv)) kvs)"
| "py_set _ = Inl TypeError"

text \<open>\<^verbatim>\<open>int(x)\<close>.\<close>

fun py_int :: "pylib \<Rightarrow> json \<Rightarrow> error + int" where
  "py_int py (JNum n) = Inr n"
| "py_int py (JBool b) = Inr (if b then 1 else 0)"
| "py_int py (JStr s) = int_of_str py s"
| "py_int py _ = Inl TypeError"

text \<open>\<^verbatim>\<open>f"{x}"\<close>.\<close>

fun py_str :: "pylib \<Rightarrow> json \<Rightarrow> string" where
  "py_str py (JStr s) = s"
| "py_str py v = str_of py v"

text \<open>\<^verbatim>\<open>sep.join(xs)\<close>.\<close>

fun join :: "string \<Rightarrow> string list \<Rightarrow> string" where
  "join sep [] = []"
| "join sep [x] = x"
| "join sep (x # y # ys) = x @ sep @ join sep (y # ys)"

text \<open>\<^verbatim>\<open>json.load\<close> of a file, \<^verbatim>\<open>json.loads\<close> of a text.\<close>

fun json_loads :: "payload \<Rightarrow> error + json" where
  "json_loads (Json v) = Inr v"
| "json_loads (Text s) = Inl JSONDecodeError"

text \<open>\<^verbatim>\<open>os.path.join\<close> of two components (POSIX).\<close>

definition path_join :: "path \<Rightarrow> string \<Rightarrow> path" where
  "path_join a b =
     (if b \<noteq> [] \<and> hd b = CHR ''/'' then b
      else if a = [] \<or> last a = CHR ''/'' then a @ b
      else a @ ''/'' @ b)"

definition datetime_now :: "world \<Rightarrow> datetime \<times> world" where
  "datetime_now w = (clock w (reads w), w\<lparr>reads := Suc (reads w)\<rparr>)"

text \<open>
  \<^verbatim>\<open>timedelta(seconds=n)\<close>, in microseconds: the normalised number of days may
  not exceed 999999999 in magnitude.
\<close>

definition timedelta_seconds :: "int \<Rightarrow> error + int" where
  "timedelta_seconds n =
     (if n div 86400 < - 999999999 \<or> 999999999 < n div 86400 then Inl OverflowError
      else Inr (n * 1000000))"

text \<open>The last representable instant, 9999-12-31T23:59:59.999999.\<close>

definition datetime_max :: datetime where
  "datetime_max = 3652059 * 86400 * 1000000 - 1"

text \<open>\<^verbatim>\<open>d + delta\<close>: the sum has to be a representable \<^verbatim>\<open>datetime\<close>.\<close>

definition datetime_add :: "datetime \<Rightarrow> int \<Rightarrow> error + datetime" where
  "datetime_add d delta =
     (if 0 \<le> d + delta \<and> d + delta \<le> datetime_max then Inr (d + delta)
      else Inl OverflowError)"

text \<open>Sending a request: the server answers, the request is logged.\<close>

definition send :: "request \<Rightarrow> world \<Rightarrow> response \<times> world" where
  "send rq w = (server w (sent w) rq, w\<lparr>sent := sent w @ [rq]\<rparr>)"

section \<open>\<^verbatim>\<open>DBManagerBase\<close>\<close>

subsection \<open>\<^verbatim>\<open>select_elements\<close>\<close>

text \<open>
  \<^verbatim>\<open>
  missing = set(user_elements) - set(db_elements)
  if missing:
      raise ValueError(f"Error: the following {caption} were not found: {', '.join(missing)}")
  return [element for element in user_elements if element in db_elements]\<close>
  The user's elements are strings; \<open>db_elements\<close> is whatever the manager holds for the
  dictionary. Once \<^verbatim>\<open>set(db_elements)\<close> has succeeded, \<open>db_elements\<close> is a
  list, a string or a dict, and \<^verbatim>\<open>element in db_elements\<close> cannot raise.
\<close>

definition select_elements :: "string list \<Rightarrow> json \<Rightarrow> string \<Rightarrow> error + string list" where
  "select_elements user_elements db_elements caption =
     (case py_set db_elements of
        Inl e \<Rightarrow> Inl e
      | Inr elems \<Rightarrow>
          let missing = set (filter (\<lambda>u. JStr u \<notin> set elems) user_elements) in
          if missing \<noteq> {} then Inl (NotFoundError caption missing)
          else Inr (filter (\<lambda>element. py_contains element db_elements = Inr True) user_elements))"

subsection \<open>The token cache: \<^verbatim>\<open>get_auth_token_path\<close>, \<^verbatim>\<open>reset_auth_token\<close>\<close>

definition get_auth_token_path :: "'a manager_scheme \<Rightarrow> world \<Rightarrow> path" where
  "get_auth_token_path m w =
     path_join (tempdir w) (''token_cache_'' @ system_type m @ ''.json'')"

text \<open>
  \<^verbatim>\<open>
  if os.path.exists(token_file_path):
      os.remove(token_file_path)\<close>
  The method returns nothing and leaves the manager object as it is.
\<close>

definition reset_auth_token :: "'a manager_scheme \<Rightarrow> world \<Rightarrow> world" where
  "reset_auth_token m w =
     (let token_file_path = get_auth_token_path m w in
      if files w token_file_path \<noteq> None
      then w\<lparr>files := (files w)(token_file_path := None)\<rparr>
      else w)"

subsection \<open>\<^verbatim>\<open>request_auth_token\<close>\<close>

fun py_fromisoformat :: "pylib \<Rightarrow> json \<Rightarrow> error + datetime" where
  "py_fromisoformat py (JStr s) = fromisoformat py s"
| "py_fromisoformat py _ = Inl TypeError"

text \<open>
  Lines 65 to 76, the cache check. \<open>Inr (Some t)\<close>: the cached token \<open>t\<close> is
  still valid and is returned; \<open>Inr None\<close>: no file, or an expiry that is not later
  than the clock's reading. The clock is read only once the file has been decoded.
\<close>

definition read_token_cache ::
  "pylib \<Rightarrow> 'a manager_scheme \<Rightarrow> world \<Rightarrow> (error + bearer option) \<times> world" where
  "read_token_cache py m w =
     (case files w (get_auth_token_path m w) of
        None \<Rightarrow> (Inr None, w)
      | Some f \<Rightarrow>
          (case json_loads f of
             Inl e \<Rightarrow> (Inl e, w)
           | Inr cached_token \<Rightarrow>
               (case py_getitem cached_token ''expires_in'' of
                  Inl e \<Rightarrow> (Inl e, w)
                | Inr x \<Rightarrow>
                    (case py_fromisoformat py x of
                       Inl e \<Rightarrow> (Inl e, w)
                     | Inr expires_in \<Rightarrow>
                         (case datetime_now w of
                            (now, w1) \<Rightarrow>
                              if expires_in > now then
                                (case py_getitem cached_token ''token'' of
                                   Inl e \<Rightarrow> (Inl e, w1)
                                 | Inr t \<Rightarrow>
                                     (Inr (Some \<lparr>bt_token = t, bt_expires_in = Some expires_in,
                                                 bt_response = None\<rparr>), w1))
                              else (Inr None, w1))))))"

text \<open>
  Lines 79 to 81: the first line of the credentials file, stripped and split at single
  spaces. \<^verbatim>\<open>str.strip\<close> removes the white space characters of Unicode at
  both ends: the ASCII ones, U+0085, U+00A0, U+1680, U+2000 to U+200A, U+2028, U+2029,
  U+202F, U+205F and U+3000.
\<close>

definition whitespace :: "string list" where
  "whitespace =
     map (\<lambda>c. [c]) [CHR 0x09, CHR 0x0A, CHR 0x0B, CHR 0x0C, CHR 0x0D,
                    CHR 0x1C, CHR 0x1D, CHR 0x1E, CHR 0x1F, CHR 0x20] @
     [[CHR 0xC2, CHR 0x85], [CHR 0xC2, CHR 0xA0], [CHR 0xE1, CHR 0x9A, CHR 0x80]] @
     map (\<lambda>c. [CHR 0xE2, CHR 0x80, c])
       [CHR 0x80, CHR 0x81, CHR 0x82, CHR 0x83, CHR 0x84, CHR 0x85, CHR 0x86, CHR 0x87,
        CHR 0x88, CHR 0x89, CHR 0x8A, CHR 0xA8, CHR 0xA9, CHR 0xAF] @
     [[CHR 0xE2, CHR 0x81, CHR 0x9F], [CHR 0xE3, CHR 0x80, CHR 0x80]]"

definition is_space :: "string \<Rightarrow> bool" where
  "is_space ch \<longleftrightarrow> ch \<in> set whitespace"

definition strip :: "string \<Rightarrow> string" where
  "strip s = concat (rev (dropWhile is_space (rev (dropWhile is_space (characters s)))))"

fun split_on :: "char \<Rightarrow> string \<Rightarrow> string list" where
  "split_on sep [] = [[]]"
| "split_on sep (c # cs) =
     (if c = sep then [] # split_on sep cs
      else (case split_on sep cs of [] \<Rightarrow> [[c]] | x # xs \<Rightarrow> (c # x) # xs))"

definition readline :: "string \<Rightarrow> string" where
  "readline s =
     (let l = takeWhile (\<lambda>c. c \<noteq> CHR 0x0A \<and> c \<noteq> CHR 0x0D) s in
      if length l < length s then l @ [CHR 0x0A] else l)"

fun file_text :: "pylib \<Rightarrow> payload \<Rightarrow> string" where
  "file_text py (Text s) = s"
| "file_text py (Json v) = json_text py v"

definition read_credentials ::
  "pylib \<Rightarrow> 'a manager_scheme \<Rightarrow> world \<Rightarrow> error + string \<times> string" where
  "read_credentials py m w =
     (case files w (path_to_credentials m) of
        None \<Rightarrow> Inl (FileNotFoundError (path_to_credentials m))
      | Some f \<Rightarrow>
          (case split_on (CHR '' '') (strip (readline (file_text py f))) of
             username # password # _ \<Rightarrow> Inr (username, password)
           | _ \<Rightarrow> Inl IndexError))"

text \<open>Lines 84 to 91: the password-grant request.\<close>

definition token_request :: "'a manager_scheme \<Rightarrow> string \<Rightarrow> string \<Rightarrow> request" where
  "token_request m username password =
     Post (url m @ ''/oauth/token'')
       [(''grant_type'', ''password''), (''client_id'', username),
        (''client_secret'', password), (''username'', username),
        (''password'', password)]"

text \<open>
  Line 96:
  \<^verbatim>\<open>"access_token" not in response_data or "expires_in" not in response_data\<close>.
\<close>

definition fields_missing :: "json \<Rightarrow> error + bool" where
  "fields_missing response_data =
     (case py_contains ''access_token'' response_data of
        Inl e \<Rightarrow> Inl e
      | Inr False \<Rightarrow> Inr True
      | Inr True \<Rightarrow>
          (case py_contains ''expires_in'' response_data of
             Inl e \<Rightarrow> Inl e
           | Inr b \<Rightarrow> Inr (\<not> b)))"

text \<open>
  Line 99, after \<^verbatim>\<open>datetime.now()\<close> has been read:
  \<^verbatim>\<open>now + timedelta(seconds=int(response_data["expires_in"]))\<close>.
\<close>

definition new_expiry :: "pylib \<Rightarrow> json \<Rightarrow> datetime \<Rightarrow> error + datetime" where
  "new_expiry py response_data now =
     (case py_getitem response_data ''expires_in'' of
        Inl e \<Rightarrow> Inl e
      | Inr x \<Rightarrow>
          (case py_int py x of
             Inl e \<Rightarrow> Inl e
           | Inr n \<Rightarrow>
               (case timedelta_seconds n of
                  Inl e \<Rightarrow> Inl e
                | Inr delta \<Rightarrow> datetime_add now delta)))"

text \<open>What line 108 writes to the cache file.\<close>

definition token_file :: "pylib \<Rightarrow> bearer \<Rightarrow> datetime \<Rightarrow> payload" where
  "token_file py t expires_in =
     Json (JObj [(''token'', bt_token t), (''expires_in'', JStr (isoformat py expires_in))])"

text \<open>Lines 93 to 117: what is done with the server's answer.\<close>

definition accept_token_response ::
  "pylib \<Rightarrow> response \<Rightarrow> 'a manager_scheme \<Rightarrow> world \<Rightarrow>
     (error + bearer) \<times> 'a manager_scheme \<times> world" where
  "accept_token_response py rsp m w =
     (if status_code rsp = 200 then
        (case json_loads (body rsp) of
           Inl e \<Rightarrow> (Inl e, m, w)
         | Inr response_data \<Rightarrow>
             (case fields_missing response_data of
                Inl e \<Rightarrow> (Inl e, m, w)
              | Inr True \<Rightarrow>
                  (Inl (ValueError ''Access token or expires_in is missing in the API response.''),
                   m, w)
              | Inr False \<Rightarrow>
                  (case datetime_now w of
                     (now, w1) \<Rightarrow>
                       (case new_expiry py response_data now of
                          Inl e \<Rightarrow> (Inl e, m, w1)
                        | Inr expires_in \<Rightarrow>
                            (case py_getitem response_data ''access_token'' of
                               Inl e \<Rightarrow> (Inl e, m, w1)
                             | Inr access_token \<Rightarrow>
                                 let t = \<lparr>bt_token = access_token,
                                          bt_expires_in = Some expires_in,
                                          bt_response = Some rsp\<rparr>
                                 in (Inr t, m\<lparr>token := Some t\<rparr>,
                                     w1\<lparr>files := (files w1)(get_auth_token_path m w1 \<mapsto>
                                                   token_file py t expires_in)\<rparr>))))))
      else
        let t = \<lparr>bt_token = JStr [], bt_expires_in = None, bt_response = Some rsp\<rparr>
        in (Inr t, m\<lparr>token := Some t\<rparr>, w))"

definition request_auth_token ::
  "pylib \<Rightarrow> 'a manager_scheme \<Rightarrow> world \<Rightarrow> (error + bearer) \<times> 'a manager_scheme \<times> world" where
  "request_auth_token py m w =
     (case read_token_cache py m w of
        (Inl e, w1) \<Rightarrow> (Inl e, m, w1)
      | (Inr (Some t), w1) \<Rightarrow> (Inr t, m\<lparr>token := Some t\<rparr>, w1)
      | (Inr None, w1) \<Rightarrow>
          (case read_credentials py m w1 of
             Inl e \<Rightarrow> (Inl e, m, w1)
           | Inr (username, password) \<Rightarrow>
               (case send (token_request m username password) w1 of
                  (rsp, w2) \<Rightarrow> accept_token_response py rsp m w2)))"

subsection \<open>\<^verbatim>\<open>is_authenticated\<close> and \<^verbatim>\<open>do_api_call\<close>\<close>

definition is_authenticated :: "'a manager_scheme \<Rightarrow> bool" where
  "is_authenticated m = (case token m of None \<Rightarrow> False | Some t \<Rightarrow> truthy (bt_token t))"

text \<open>
  Lines 128 to 132:
  \<^verbatim>\<open>
  if not self.is_authenticated():
      self.request_auth_token()
      if not self.token.token:
          raise Exception("User is not authenticated. Token request failed.")\<close>
\<close>

definition ensure_token ::
  "pylib \<Rightarrow> 'a manager_scheme \<Rightarrow> world \<Rightarrow> (error + unit) \<times> 'a manager_scheme \<times> world" where
  "ensure_token py m w =
     (if \<not> is_authenticated m then
        (case request_auth_token py m w of
           (Inl e, m1, w1) \<Rightarrow> (Inl e, m1, w1)
         | (Inr _, m1, w1) \<Rightarrow>
             (case token m1 of
                None \<Rightarrow> (Inl AttributeError, m1, w1)
              | Some t \<Rightarrow>
                  if \<not> truthy (bt_token t)
                  then (Inl (Exception ''User is not authenticated. Token request failed.''),
                        m1, w1)
                  else (Inr (), m1, w1)))
      else (Inr (), m, w))"

definition api_request ::
  "pylib \<Rightarrow> 'a manager_scheme \<Rightarrow> string \<Rightarrow> (string \<times> string) list option \<Rightarrow> json \<Rightarrow> request" where
  "api_request py m u params tok =
     Get (url m @ u) params [(''Authorization'', ''Bearer '' @ py_str py tok)]"

definition do_api_call ::
  "pylib \<Rightarrow> string \<Rightarrow> (string \<times> string) list option \<Rightarrow> 'a manager_scheme \<Rightarrow> world \<Rightarrow>
     (error + api_call_result) \<times> 'a manager_scheme \<times> world" where
  "do_api_call py u params m w =
     (case ensure_token py m w of
        (Inl e, m1, w1) \<Rightarrow> (Inl e, m1, w1)
      | (Inr _, m1, w1) \<Rightarrow>
          (case token m1 of
             None \<Rightarrow> (Inl AttributeError, m1, w1)
           | Some t \<Rightarrow>
               (case send (api_request py m1 u params (bt_token t)) w1 of
                  (rsp, w2) \<Rightarrow>
                    if status_code rsp = 200
                    then (Inr \<lparr>content = body rsp, response = rsp\<rparr>, m1, w2)
                    else (Inr \<lparr>content = Text [], response = rsp\<rparr>, m1, w2))))"

subsection \<open>\<^verbatim>\<open>get_dictionary\<close>\<close>

text \<open>\<^verbatim>\<open>[item.get("Name") for item in response_data]\<close>.\<close>

fun get_names :: "json list \<Rightarrow> error + json list" where
  "get_names [] = Inr []"
| "get_names (item # items) =
     (case dict_get item ''Name'' JNull of
        Inl e \<Rightarrow> Inl e
      | Inr n \<Rightarrow> (case get_names items of Inl e \<Rightarrow> Inl e | Inr ns \<Rightarrow> Inr (n # ns)))"

text \<open>Lines 160 to 167: the two shapes the response may have.\<close>

fun extract_names :: "json \<Rightarrow> error + json" where
  "extract_names (JArr items) =
     (case get_names items of Inl e \<Rightarrow> Inl e | Inr ns \<Rightarrow> Inr (JArr ns))"
| "extract_names (JObj kvs) = dict_get (JObj kvs) ''Name'' (JArr [])"
| "extract_names _ = Inl (ValueError ''Unexpected JSON structure in API response.'')"

definition dictionary_cache_path :: "world \<Rightarrow> string \<Rightarrow> path" where
  "dictionary_cache_path w dictionary_name = path_join (tempdir w) (dictionary_name @ ''.json'')"

text \<open>
  The result \<open>JNull\<close> is Python's \<^verbatim>\<open>None\<close>. Only
  \<^verbatim>\<open>json.JSONDecodeError\<close> is caught, and only \<^verbatim>\<open>json.loads\<close>
  raises it.
\<close>

definition get_dictionary ::
  "pylib \<Rightarrow> string \<Rightarrow> string \<Rightarrow> bool \<Rightarrow> 'a manager_scheme \<Rightarrow> world \<Rightarrow>
     (error + json) \<times> 'a manager_scheme \<times> world" where
  "get_dictionary py u dictionary_name force m w =
     (let cache_file_path = dictionary_cache_path w dictionary_name in
      case (if force then None else files w cache_file_path) of
        Some f \<Rightarrow> (json_loads f, m, w)
      | None \<Rightarrow>
          (case do_api_call py u None m w of
             (Inl e, m1, w1) \<Rightarrow> (Inl e, m1, w1)
           | (Inr api_call_result, m1, w1) \<Rightarrow>
               if status_code (response api_call_result) = 200 then
                 (case json_loads (content api_call_result) of
                    Inl e \<Rightarrow> (Inr JNull, m1, w1)
                  | Inr response_data \<Rightarrow>
                      (case extract_names response_data of
                         Inl e \<Rightarrow> (Inl e, m1, w1)
                       | Inr dictionary_data \<Rightarrow>
                           (Inr dictionary_data, m1,
                            w1\<lparr>files := (files w1)(cache_file_path \<mapsto> Json dictionary_data)\<rparr>)))
               else (Inr JNull, m1, w1)))"

subsection \<open>\<^verbatim>\<open>select_header\<close>\<close>

text \<open>\<^verbatim>\<open>df.empty\<close>: no column or no row.\<close>

definition df_empty :: "dataframe \<Rightarrow> bool" where
  "df_empty df \<longleftrightarrow> columns df = [] \<or> rows df = []"

text \<open>A cell the record does not give is the missing value, identified here with \<open>JNull\<close>.\<close>

definition cell :: "(string \<times> json) list \<Rightarrow> string \<Rightarrow> json" where
  "cell r c = (case map_of r c of None \<Rightarrow> JNull | Some v \<Rightarrow> v)"

text \<open>
  \<^verbatim>\<open>self.headers_df[self.headers_df["ColumnDesc"] == desc]["ColumnVariable"]\<close>:
  the variable cells of the rows whose description cell equals \<open>desc\<close>, in row order.
  Indexing by a label that is no column raises \<^verbatim>\<open>KeyError\<close>.
\<close>

definition column_match :: "dataframe \<Rightarrow> string \<Rightarrow> error + json list" where
  "column_match df desc =
     (if ''ColumnDesc'' \<notin> set (columns df) then Inl (KeyError ''ColumnDesc'')
      else if ''ColumnVariable'' \<notin> set (columns df) then Inl (KeyError ''ColumnVariable'')
      else Inr (map (\<lambda>r. cell r ''ColumnVariable'')
                  (filter (\<lambda>r. cell r ''ColumnDesc'' = JStr desc) (rows df))))"

definition not_found_message :: "string \<Rightarrow> string" where
  "not_found_message desc = ''Column description '' @ [CHR 0x27] @ desc @ [CHR 0x27] @ '' not found.''"

text \<open>
  The loop of lines 205 to 210; the list built so far is lost when the loop raises.
\<close>

fun select_variables :: "dataframe \<Rightarrow> string list \<Rightarrow> error + json list" where
  "select_variables df [] = Inr []"
| "select_variables df (desc # descs) =
     (case column_match df desc of
        Inl e \<Rightarrow> Inl e
      | Inr [] \<Rightarrow> Inl (ValueError (not_found_message desc))
      | Inr (v # _) \<Rightarrow>
          (case select_variables df descs of
             Inl e \<Rightarrow> Inl e
           | Inr vs \<Rightarrow> Inr (v # vs)))"

definition select_header :: "'a manager_scheme \<Rightarrow> string list \<Rightarrow> error + json list" where
  "select_header m column_descriptions =
     (if df_empty (headers_df m)
      then Inl (ValueError ''Headers not loaded. Use query_headers to load data.'')
      else select_variables (headers_df m) column_descriptions)"

section \<open>\<^verbatim>\<open>FIVEDBManager\<close>\<close>

text \<open>
  The manager keeps one dictionary per vocabulary axis, and has for each axis a getter, a
  selector and a saver that differ in the field, the endpoint, the cache name and the
  caption only. The nine axes are a datatype here and each family of methods is one
  function of the axis.
\<close>

datatype axis =
    ProcessTypes | Parameters | CellTypes | Stimulated | PatientStates
  | Products | DaughterCells | Regulators | Modifiers

fun axis_value :: "axis \<Rightarrow> fivedb \<Rightarrow> json" where
  "axis_value ProcessTypes m = process_types m"
| "axis_value Parameters m = parameters m"
| "axis_value CellTypes m = cell_types m"
| "axis_value Stimulated m = stimulateds m"
| "axis_value PatientStates m = patient_states m"
| "axis_value Products m = products m"
| "axis_value DaughterCells m = daughter_cells m"
| "axis_value Regulators m = regulators m"
| "axis_value Modifiers m = modifiers m"

fun axis_assign :: "axis \<Rightarrow> json \<Rightarrow> fivedb \<Rightarrow> fivedb" where
  "axis_assign ProcessTypes d m = m\<lparr>process_types := d\<rparr>"
| "axis_assign Parameters d m = m\<lparr>parameters := d\<rparr>"
| "axis_assign CellTypes d m = m\<lparr>cell_types := d\<rparr>"
| "axis_assign Stimulated d m = m\<lparr>stimulateds := d\<rparr>"
| "axis_assign PatientStates d m = m\<lparr>patient_states := d\<rparr>"
| "axis_assign Products d m = m\<lparr>products := d\<rparr>"
| "axis_assign DaughterCells d m = m\<lparr>daughter_cells := d\<rparr>"
| "axis_assign Regulators d m = m\<lparr>regulators := d\<rparr>"
| "axis_assign Modifiers d m = m\<lparr>modifiers := d\<rparr>"

text \<open>
  The name under which the axis is fetched and cached. In the source the first letter of
  \<^verbatim>\<open>cell_types\<close> in \<^verbatim>\<open>get_cell_types\<close> is the Cyrillic letter
  U+0441, two bytes in UTF-8.
\<close>

fun axis_name :: "axis \<Rightarrow> string" where
  "axis_name ProcessTypes = ''process_types''"
| "axis_name Parameters = ''parameters''"
| "axis_name CellTypes = [CHR 0xD1, CHR 0x81] @ ''ell_types''"
| "axis_name Stimulated = ''stimulated''"
| "axis_name PatientStates = ''patient_states''"
| "axis_name Products = ''products''"
| "axis_name DaughterCells = ''daughter_cells''"
| "axis_name Regulators = ''regulators''"
| "axis_name Modifiers = ''modifiers''"

fun axis_caption :: "axis \<Rightarrow> string" where
  "axis_caption ProcessTypes = ''process_types''"
| "axis_caption Parameters = ''parameters''"
| "axis_caption CellTypes = ''cell_types''"
| "axis_caption Stimulated = ''stimulateds''"
| "axis_caption PatientStates = ''patient_states''"
| "axis_caption Products = ''products''"
| "axis_caption DaughterCells = ''daughter_cells''"
| "axis_caption Regulators = ''regulators''"
| "axis_caption Modifiers = ''modifiers''"

text \<open>
  \<^verbatim>\<open>get_process_types\<close> to \<^verbatim>\<open>get_modifiers\<close>:
  \<^verbatim>\<open>self.get_dictionary("/api/v1/<name>", "<name>", force)\<close>.
\<close>

definition get_axis ::
  "pylib \<Rightarrow> axis \<Rightarrow> bool \<Rightarrow> fivedb \<Rightarrow> world \<Rightarrow> (error + json) \<times> fivedb \<times> world" where
  "get_axis py ax force m w = get_dictionary py (''/api/v1/'' @ axis_name ax) (axis_name ax) force m w"

text \<open>
  \<^verbatim>\<open>load_dictionaries\<close> fetches and assigns the nine dictionaries one after the
  other; an exception leaves the later fields as they were.
\<close>

fun load_axes ::
  "pylib \<Rightarrow> axis list \<Rightarrow> bool \<Rightarrow> fivedb \<Rightarrow> world \<Rightarrow> (error + unit) \<times> fivedb \<times> world" where
  "load_axes py [] force m w = (Inr (), m, w)"
| "load_axes py (ax # axs) force m w =
     (case get_axis py ax force m w of
        (Inl e, m1, w1) \<Rightarrow> (Inl e, m1, w1)
      | (Inr d, m1, w1) \<Rightarrow> load_axes py axs force (axis_assign ax d m1) w1)"

definition load_dictionaries ::
  "pylib \<Rightarrow> bool \<Rightarrow> fivedb \<Rightarrow> world \<Rightarrow> (error + unit) \<times> fivedb \<times> world" where
  "load_dictionaries py force m w =
     load_axes py [ProcessTypes, Parameters, CellTypes, Stimulated, PatientStates,
                   Products, DaughterCells, Regulators, Modifiers] force m w"

text \<open>
  \<^verbatim>\<open>
  if not dictionary:
      self.load_dictionaries()\<close>
\<close>

definition check_dictionary ::
  "pylib \<Rightarrow> json \<Rightarrow> string \<Rightarrow> fivedb \<Rightarrow> world \<Rightarrow> (error + unit) \<times> fivedb \<times> world" where
  "check_dictionary py dictionary caption m w =
     (if \<not> truthy dictionary then load_dictionaries py False m w else (Inr (), m, w))"

text \<open>
  \<^verbatim>\<open>select_process_types\<close> to \<^verbatim>\<open>select_modifiers\<close>:
  \<^verbatim>\<open>
  self.check_dictionary(self.<field>, '<caption>')
  return self.select_elements(<values>, self.<field>, '<caption>')\<close>
\<close>

definition select_axis ::
  "pylib \<Rightarrow> axis \<Rightarrow> string list \<Rightarrow> fivedb \<Rightarrow> world \<Rightarrow>
     (error + string list) \<times> fivedb \<times> world" where
  "select_axis py ax vals m w =
     (case check_dictionary py (axis_value ax m) (axis_caption ax) m w of
        (Inl e, m1, w1) \<Rightarrow> (Inl e, m1, w1)
      | (Inr _, m1, w1) \<Rightarrow> (select_elements vals (axis_value ax m1) (axis_caption ax), m1, w1))"

definition select_process_types ::
  "pylib \<Rightarrow> string list \<Rightarrow> fivedb \<Rightarrow> world \<Rightarrow> (error + string list) \<times> fivedb \<times> world" where
  "select_process_types py = select_axis py ProcessTypes"

subsection \<open>\<^verbatim>\<open>query_data\<close>\<close>

text \<open>Column labels in the order in which the records first mention them.\<close>

definition first_seen :: "string list \<Rightarrow> string list" where
  "first_seen xs = rev (remdups (rev xs))"

fun as_records :: "json list \<Rightarrow> (string \<times> json) list list option" where
  "as_records [] = Some []"
| "as_records (JObj kvs # xs) = map_option (\<lambda>rs. kvs # rs) (as_records xs)"
| "as_records (_ # xs) = None"

text \<open>\<^verbatim>\<open>pd.DataFrame(v)\<close>: a list of dicts is a table with one row per dict.\<close>

definition pd_DataFrame :: "pylib \<Rightarrow> json \<Rightarrow> error + dataframe" where
  "pd_DataFrame py v =
     (case v of
        JArr xs \<Rightarrow>
          (case as_records xs of
             Some rs \<Rightarrow> Inr \<lparr>columns = first_seen (concat (map (map fst) rs)), rows = rs\<rparr>
           | None \<Rightarrow> DataFrame_other py v)
      | _ \<Rightarrow> DataFrame_other py v)"

text \<open>
  Lines 448 to 453 and 275 to 280, shared by the two managers: the call, and a table on
  status 200, \<^verbatim>\<open>None\<close> otherwise.
\<close>

definition query_call ::
  "pylib \<Rightarrow> (string \<times> string) list \<Rightarrow> 'a manager_scheme \<Rightarrow> world \<Rightarrow>
     (error + dataframe option) \<times> 'a manager_scheme \<times> world" where
  "query_call py params m w =
     (case do_api_call py ''/api/v1/query_data'' (Some params) m w of
        (Inl e, m1, w1) \<Rightarrow> (Inl e, m1, w1)
      | (Inr api_call_result, m1, w1) \<Rightarrow>
          if status_code (response api_call_result) = 200 then
            (case json_loads (content api_call_result) of
               Inl e \<Rightarrow> (Inl e, m1, w1)
             | Inr v \<Rightarrow>
                 (case pd_DataFrame py v of
                    Inl e \<Rightarrow> (Inl e, m1, w1)
                  | Inr df \<Rightarrow> (Inr (Some df), m1, w1)))
          else (Inr None, m1, w1))"

text \<open>The parameters \<^verbatim>\<open>FIVEDBManager.query_data\<close> builds, in the dict's order.\<close>

definition query_params ::
  "string list \<Rightarrow> string list \<Rightarrow> string list \<Rightarrow> string list \<Rightarrow> string list \<Rightarrow> string list \<Rightarrow>
   string list \<Rightarrow> string list \<Rightarrow> string list \<Rightarrow> string list \<Rightarrow> string \<Rightarrow> (string \<times> string) list" where
  "query_params process_type parameter cell_type stimulated patient_state product daughter
     regulator modifier headers wstat_switch =
     [(''process_type'', join '','' process_type),
      (''parameter'', join '','' parameter),
      (''cell_type'', join '','' cell_type),
      (''stimulated'', join '','' stimulated),
      (''patient_state'', join '','' patient_state),
      (''product'', join '','' product),
      (''daughter'', join '','' daughter),
      (''regulator'', join '','' regulator),
      (''modifier'', join '','' modifier),
      (''headers'', join '','' headers),
      (''wstatSwitch'', wstat_switch)]"

definition query_data ::
  "pylib \<Rightarrow> string list \<Rightarrow> string list \<Rightarrow> string list \<Rightarrow> string list \<Rightarrow> string list \<Rightarrow>
   string list \<Rightarrow> string list \<Rightarrow> string list \<Rightarrow> string list \<Rightarrow> string list \<Rightarrow> string \<Rightarrow>
   fivedb \<Rightarrow> world \<Rightarrow> (error + dataframe option) \<times> fivedb \<times> world" where
  "query_data py process_type parameter cell_type stimulated patient_state product daughter
     regulator modifier headers wstat_switch m w =
     query_call py
       (query_params process_type parameter cell_type stimulated patient_state product
          daughter regulator modifier headers wstat_switch) m w"

section \<open>\<^verbatim>\<open>CytoconDBManager.query_data\<close>\<close>

text \<open>
  The method uses the fields of the base class only, so it is stated for every manager
  object.
\<close>

definition cytocon_query_params ::
  "string list \<Rightarrow> string list \<Rightarrow> string list \<Rightarrow> string list \<Rightarrow> string list \<Rightarrow> string \<Rightarrow>
   (string \<times> string) list" where
  "cytocon_query_params species tissue_types diseases markers headers wstat_switch =
     [(''tissue_types'', join '','' tissue_types),
      (''diseases'', join '','' diseases),
      (''species'', join '','' species),
      (''markers'', join '','' markers),
      (''headers'', join '','' headers),
      (''wstatSwitch'', wstat_switch)]"

definition cytocon_query_data ::
  "pylib \<Rightarrow> string list \<Rightarrow> string list \<Rightarrow> string list \<Rightarrow> string list \<Rightarrow> string list \<Rightarrow> string \<Rightarrow>
   'a manager_scheme \<Rightarrow> world \<Rightarrow> (error + dataframe option) \<times> 'a manager_scheme \<times> world" where
  "cytocon_query_data py species tissue_types diseases markers headers wstat_switch m w =
     query_call py
       (cytocon_query_params species tissue_types diseases markers headers wstat_switch) m w"

section \<open>Requests to the query endpoint\<close>

text \<open>
  A query network call is a GET of \<^verbatim>\<open>/api/v1/query_data\<close> under the manager's
  base URL. \<open>no_query_sent base w w'\<close>: the requests logged in \<open>w'\<close> are those of
  \<open>w\<close> followed by requests none of which is a query call.
\<close>

definition is_query_request :: "string \<Rightarrow> request \<Rightarrow> bool" where
  "is_query_request base rq =
     (case rq of Get u params hdrs \<Rightarrow> u = base @ ''/api/v1/query_data'' | Post u form \<Rightarrow> False)"

definition no_query_sent :: "string \<Rightarrow> world \<Rightarrow> world \<Rightarrow> bool" where
  "no_query_sent base w w' \<longleftrightarrow>
     (\<exists>new. sent w' = sent w @ new \<and> (\<forall>rq\<in>set new. \<not> is_query_request base rq))"

section \<open>A concrete environment\<close>

text \<open>
  A library, a manager object and a world on which the model is run. The library knows
  the two time stamps the runs meet, five seconds and one hour and ten seconds after the
  epoch. The manager is the one the example script creates, holding a given token and a
  given dictionary of process types. The world has a clock that reads ten seconds after
  the epoch, a server that gives one fixed answer to every request, and the given files.
\<close>

definition example_py :: pylib where
  "example_py =
     \<lparr>fromisoformat = (\<lambda>s. if s = ''0001-01-01T00:00:05'' then Inr 5000000
                           else if s = ''0001-01-01T01:00:10'' then Inr 3610000000
                           else Inl (ValueError ''Invalid isoformat string'')),
      isoformat = (\<lambda>d. if d = 5000000 then ''0001-01-01T00:00:05''
                       else if d = 3610000000 then ''0001-01-01T01:00:10''
                       else ''0001-01-01T00:00:00''),
      int_of_str = (\<lambda>s. Inl (ValueError ''invalid literal for int()'')),
      str_of = (\<lambda>v. ''None''),
      json_text = (\<lambda>v. []),
      DataFrame_other = (\<lambda>v. Inl (ValueError ''DataFrame constructor not properly called!''))\<rparr>"

definition example_manager :: "bearer option \<Rightarrow> json \<Rightarrow> fivedb" where
  "example_manager tok dictionary =
     \<lparr>url = ''https://dev5db.insysbio.com'',
      path_to_credentials = ''/home/user/fivedb_credentials.txt'',
      token = tok, system_type = ''unknown'',
      headers_df = \<lparr>columns = [], rows = []\<rparr>,
      process_types = dictionary, parameters = JArr [], cell_types = JArr [],
      stimulateds = JArr [], patient_states = JArr [], products = JArr [],
      daughter_cells = JArr [], regulators = JArr [], modifiers = JArr []\<rparr>"

definition example_world :: "(path \<rightharpoonup> payload) \<Rightarrow> response \<Rightarrow> world" where
  "example_world fs rsp =
     \<lparr>files = fs, tempdir = ''/tmp'', clock = (\<lambda>n. 10000000), reads = 0,
      server = (\<lambda>history rq. rsp), sent = []\<rparr>"

text \<open>The credentials file of the example script, and the same with a cached token.\<close>

definition credentials_file :: "path \<rightharpoonup> payload" where
  "credentials_file = [''/home/user/fivedb_credentials.txt'' \<mapsto> Text (''user secret'' @ [CHR 0x0A])]"

definition example_cache :: "string \<Rightarrow> (path \<rightharpoonup> payload)" where
  "example_cache stamp =
     credentials_file(''/tmp/token_cache_unknown.json'' \<mapsto>
       Json (JObj [(''token'', JStr ''old''), (''expires_in'', JStr stamp)]))"

text \<open>Answers of the token endpoint: a grant for one hour, a refusal, a grant without lifetime.\<close>

definition token_granted :: response where
  "token_granted =
     \<lparr>status_code = 200,
      body = Json (JObj [(''access_token'', JStr ''abc''), (''expires_in'', JNum 3600)])\<rparr>"

definition server_error :: response where
  "server_error = \<lparr>status_code = 500, body = Text []\<rparr>"

definition incomplete_grant :: response where
  "incomplete_grant = \<lparr>status_code = 200, body = Json (JObj [(''access_token'', JStr ''abc'')])\<rparr>"

text \<open>A header catalog with two columns described.\<close>

definition example_catalog :: dataframe where
  "example_catalog =
     \<lparr>columns = [''ColumnDesc'', ''ColumnVariable''],
      rows = [[(''ColumnDesc'', JStr ''Parameter''), (''ColumnVariable'', JStr ''param'')],
              [(''ColumnDesc'', JStr ''Parameter value''), (''ColumnVariable'', JStr ''param_val'')]]\<rparr>"

text \<open>A usable token, and answers of the query and dictionary endpoints.\<close>

definition example_token :: bearer where
  "example_token = \<lparr>bt_token = JStr ''abc'', bt_expires_in = Some 3610000000, bt_response = None\<rparr>"

definition query_rows :: response where
  "query_rows =
     \<lparr>status_code = 200,
      body = Json (JArr [JObj [(''param'', JStr ''Emax''), (''param_val'', JStr ''1.2'')]])\<rparr>"

definition names_answer :: response where
  "names_answer =
     \<lparr>status_code = 200,
      body = Json (JArr [JObj [(''Name'', JStr ''A'')], JObj [(''Name'', JStr ''B'')],
                         JObj [(''Name'', JStr ''C'')]])\<rparr>"

definition nameless_answer :: response where
  "nameless_answer = \<lparr>status_code = 200, body = Json (JObj [(''Id'', JNum 1)])\<rparr>"

definition nameless_items_answer :: response where
  "nameless_items_answer =
     \<lparr>status_code = 200,
      body = Json (JArr [JObj [(''Name'', JStr ''Migration'')], JObj [(''Id'', JNum 2)]])\<rparr>"

definition single_name_answer :: response where
  "single_name_answer = \<lparr>status_code = 200, body = Json (JObj [(''Name'', JStr ''Migration'')])\<rparr>"

definition number_answer :: response where
  "number_answer = \<lparr>status_code = 200, body = Json (JNum 5)\<rparr>"

section \<open>Properties\<close>

subsection \<open>What a method sends\<close>

lemma no_query_sent_refl: "sent w' = sent w \<Longrightarrow> no_query_sent base w w'"
  by (simp add: no_query_sent_def)

lemma no_query_sent_trans:
  "no_query_sent base w w1 \<Longrightarrow> no_query_sent base w1 w2 \<Longrightarrow> no_query_sent base w w2"
  unfolding no_query_sent_def by fastforce

lemma no_query_sent_step:
  "\<not> is_query_request base rq \<Longrightarrow> sent w' = sent w @ [rq] \<Longrightarrow> no_query_sent base w w'"
  by (simp add: no_query_sent_def)

lemma read_token_cache_world:
  "read_token_cache py m w = (r, w1) \<Longrightarrow> w1 = w \<or> w1 = w\<lparr>reads := Suc (reads w)\<rparr>"
  by (auto simp: read_token_cache_def datetime_now_def
      split: option.splits sum.splits if_splits)

lemma accept_token_response_frame:
  "accept_token_response py rsp m w = (r, m', w') \<Longrightarrow> sent w' = sent w \<and> url m' = url m"
  by (auto simp: accept_token_response_def datetime_now_def Let_def
      split: sum.splits bool.splits if_splits)

lemma request_auth_token_sent:
  assumes "request_auth_token py m w = (r, m', w')"
  shows "url m' = url m \<and>
         (sent w' = sent w \<or> (\<exists>u p. sent w' = sent w @ [token_request m u p]))"
proof -
  obtain c w1 where c: "read_token_cache py m w = (c, w1)"
    by (cases "read_token_cache py m w")
  then have w1: "sent w1 = sent w"
    using read_token_cache_world [OF c] by auto
  show ?thesis
  proof (cases c)
    case (Inl e)
    with c assms w1 show ?thesis by (simp add: request_auth_token_def)
  next
    case (Inr o1)
    show ?thesis
    proof (cases o1)
      case (Some t)
      with Inr c assms w1 show ?thesis by (auto simp: request_auth_token_def)
    next
      case None
      show ?thesis
      proof (cases "read_credentials py m w1")
        case (Inl e)
        with None Inr c assms w1 show ?thesis by (simp add: request_auth_token_def)
      next
        case cr: (Inr up)
        obtain u p where up: "up = (u, p)" by (cases up)
        have "accept_token_response py (server w1 (sent w1) (token_request m u p)) m
                (w1\<lparr>sent := sent w1 @ [token_request m u p]\<rparr>) = (r, m', w')"
          using None Inr c assms cr up by (simp add: request_auth_token_def send_def)
        from accept_token_response_frame [OF this] w1 show ?thesis by auto
      qed
    qed
  qed
qed

lemma token_request_not_query: "\<not> is_query_request base (token_request m u p)"
  by (simp add: is_query_request_def token_request_def)

lemma request_auth_token_no_query:
  "request_auth_token py m w = (r, m', w') \<Longrightarrow> no_query_sent base w w'"
  using request_auth_token_sent [of py m w r m' w']
    no_query_sent_step [OF token_request_not_query, where base = base and w = w and w' = w']
  by (auto intro: no_query_sent_refl)

lemma ensure_token_frame:
  assumes "ensure_token py m w = (r, m', w')"
  shows "url m' = url m \<and> no_query_sent base w w'"
proof (cases "is_authenticated m")
  case True
  with assms show ?thesis by (simp add: ensure_token_def no_query_sent_refl)
next
  case False
  obtain r1 m1 w1 where rq: "request_auth_token py m w = (r1, m1, w1)"
    by (cases "request_auth_token py m w")
  have "m' = m1 \<and> w' = w1"
    using assms False rq
    by (auto simp: ensure_token_def split: sum.splits option.splits if_splits)
  then show ?thesis
    using request_auth_token_sent [OF rq] request_auth_token_no_query [OF rq] by simp
qed

lemma do_api_call_frame:
  assumes "do_api_call py u params m w = (r, m', w')" and "u \<noteq> ''/api/v1/query_data''"
  shows "url m' = url m \<and> no_query_sent (url m) w w'"
proof -
  obtain r1 m1 w1 where e: "ensure_token py m w = (r1, m1, w1)"
    by (cases "ensure_token py m w")
  note f = ensure_token_frame [OF e, of "url m"]
  have nq: "\<not> is_query_request (url m) (api_request py m1 u params tok)" for tok
    using assms(2) f by (simp add: is_query_request_def api_request_def)
  have "m' = m1 \<and> (sent w' = sent w1 \<or> (\<exists>tok. sent w' = sent w1 @ [api_request py m1 u params tok]))"
    using assms(1) e
    by (auto simp: do_api_call_def send_def split: sum.splits option.splits if_splits)
  then show ?thesis
    using f nq by (auto intro: no_query_sent_trans no_query_sent_refl no_query_sent_step)
qed

lemma get_dictionary_frame:
  assumes "get_dictionary py u dictionary_name force m w = (r, m', w')"
    and "u \<noteq> ''/api/v1/query_data''"
  shows "url m' = url m \<and> no_query_sent (url m) w w'"
proof (cases "if force then None else files w (dictionary_cache_path w dictionary_name)")
  case (Some f)
  with assms(1) show ?thesis
    by (simp add: get_dictionary_def no_query_sent_refl)
next
  case None
  obtain r1 m1 w1 where d: "do_api_call py u None m w = (r1, m1, w1)"
    by (cases "do_api_call py u None m w")
  have "m' = m1 \<and> sent w' = sent w1"
    using assms(1) None d
    by (auto simp: get_dictionary_def split: sum.splits if_splits)
  then show ?thesis
    using do_api_call_frame [OF d assms(2)]
    by (auto intro: no_query_sent_trans no_query_sent_refl)
qed

lemma axis_url_not_query: "''/api/v1/'' @ axis_name ax \<noteq> ''/api/v1/query_data''"
  by (cases ax) simp_all

lemma url_axis_assign: "url (axis_assign ax d m) = url m"
  by (cases ax) simp_all

lemma load_axes_frame:
  "load_axes py axs force m w = (r, m', w') \<Longrightarrow> url m' = url m \<and> no_query_sent (url m) w w'"
proof (induction axs arbitrary: m w)
  case Nil
  then show ?case by (simp add: no_query_sent_refl)
next
  case (Cons ax axs)
  obtain r1 m1 w1 where g: "get_axis py ax force m w = (r1, m1, w1)"
    by (cases "get_axis py ax force m w")
  have f: "url m1 = url m \<and> no_query_sent (url m) w w1"
    using g get_dictionary_frame [OF _ axis_url_not_query] by (simp add: get_axis_def)
  show ?case
  proof (cases r1)
    case (Inl e)
    with Cons.prems g f show ?thesis by simp
  next
    case (Inr d)
    then have "load_axes py axs force (axis_assign ax d m1) w1 = (r, m', w')"
      using Cons.prems g by simp
    from Cons.IH [OF this] f show ?thesis
      by (auto simp: url_axis_assign intro: no_query_sent_trans)
  qed
qed

lemma select_axis_frame:
  assumes "select_axis py ax vals m w = (r, m', w')"
  shows "no_query_sent (url m) w w'"
proof -
  obtain r1 m1 w1 where c: "check_dictionary py (axis_value ax m) (axis_caption ax) m w = (r1, m1, w1)"
    by (cases "check_dictionary py (axis_value ax m) (axis_caption ax) m w")
  have "no_query_sent (url m) w w1"
  proof (cases "truthy (axis_value ax m)")
    case True
    with c show ?thesis by (simp add: check_dictionary_def no_query_sent_refl)
  next
    case False
    with c have "load_dictionaries py False m w = (r1, m1, w1)"
      by (simp add: check_dictionary_def)
    then show ?thesis
      unfolding load_dictionaries_def by (rule load_axes_frame [THEN conjunct2])
  qed
  moreover have "w' = w1"
    using assms c by (auto simp: select_axis_def split: sum.splits)
  ultimately show ?thesis by simp
qed


subsection \<open>Validation of a selection\<close>

lemma concat_characters: "concat (characters s) = s"
  by (induction s) (auto split: list.splits)

lemma substring_prefix: "substring x (x @ b)"
proof (cases "x @ b")
  case Nil
  then show ?thesis by simp
next
  case (Cons a list)
  have "take (length x) (x @ b) = x" by simp
  then show ?thesis unfolding Cons by simp
qed

lemma substring_append: "substring x (a @ x @ b)"
  by (induction a) (auto simp: substring_prefix)

lemma substring_character: "x \<in> set (characters s) \<Longrightarrow> substring x s"
proof -
  assume "x \<in> set (characters s)"
  then obtain ys zs where "characters s = ys @ x # zs"
    by (auto dest: split_list)
  then have "concat (characters s) = concat ys @ x @ concat zs"
    by simp
  then show ?thesis
    by (metis concat_characters substring_append)
qed

lemma py_contains_of_py_set:
  "py_set db = Inr elems \<Longrightarrow> JStr v \<in> set elems \<Longrightarrow> py_contains v db = Inr True"
  by (cases db) (auto simp: substring_character split: if_splits)

lemma select_elements_general:
  assumes h: "py_set db = Inr elems"
  shows "select_elements vals db caption =
        (if \<forall>v\<in>set vals. JStr v \<in> set elems then Inr vals
         else Inl (NotFoundError caption {v \<in> set vals. JStr v \<notin> set elems}))"
proof (cases "\<forall>v\<in>set vals. JStr v \<in> set elems")
  case True
  then have "filter (\<lambda>u. JStr u \<notin> set elems) vals = []"
    by (simp add: filter_empty_conv)
  moreover have "filter (\<lambda>element. py_contains element db = Inr True) vals = vals"
    using True py_contains_of_py_set [OF h] by (simp add: filter_id_conv)
  ultimately show ?thesis
    using True h by (simp add: select_elements_def)
next
  case False
  then have "set (filter (\<lambda>u. JStr u \<notin> set elems) vals) \<noteq> {}"
    by (auto simp: filter_empty_conv)
  then show ?thesis
    using False h by (simp add: select_elements_def)
qed

lemma select_elements_strings:
  "select_elements vals (JArr (map JStr dictionary)) caption =
     (if set vals \<subseteq> set dictionary then Inr vals
      else Inl (NotFoundError caption (set vals - set dictionary)))"
proof -
  have strs: "py_set (JArr (map JStr dictionary)) = Inr (map JStr dictionary)"
    by (simp add: list_ex_iff)
  have "{v \<in> set vals. JStr v \<notin> set (map JStr dictionary)} = set vals - set dictionary"
    by auto
  moreover have "(\<forall>v\<in>set vals. JStr v \<in> set (map JStr dictionary)) \<longleftrightarrow> set vals \<subseteq> set dictionary"
    by auto
  ultimately show ?thesis
    using select_elements_general [OF strs] by simp
qed

lemma select_axis_result:
  assumes "select_axis py ax vals m w = (r, m', w')"
  shows "(\<exists>e. r = Inl e \<and> check_dictionary py (axis_value ax m) (axis_caption ax) m w = (Inl e, m', w'))
       \<or> r = select_elements vals (axis_value ax m') (axis_caption ax)"
  using assms by (auto simp: select_axis_def split: sum.splits prod.splits)

text \<open>
  C1. \<^verbatim>\<open>select_elements\<close> returns the requested values unchanged, in their order,
  when each of them is a member of the dictionary, and otherwise raises the error that
  names the set of all requested values that are not members. This holds for whatever
  Python can iterate over as the dictionary; for a dictionary that is a list of strings
  the set named is the set difference of the values and the dictionary. Every selector
  of an axis whose dictionary is loaded is \<^verbatim>\<open>select_elements\<close> on that
  dictionary and leaves the manager and the world as they are; in every run of a
  selector, also one that reloads the dictionaries first, no request goes to the query
  endpoint, and the result is the exception of the reload or the verdict of
  \<^verbatim>\<open>select_elements\<close> on the dictionary held afterwards.
\<close>

theorem select_validates:
  "(py_set db = Inr elems \<longrightarrow>
      select_elements vals db caption =
        (if \<forall>v\<in>set vals. JStr v \<in> set elems then Inr vals
         else Inl (NotFoundError caption {v \<in> set vals. JStr v \<notin> set elems})))
   \<and> select_elements vals (JArr (map JStr dictionary)) caption =
        (if set vals \<subseteq> set dictionary then Inr vals
         else Inl (NotFoundError caption (set vals - set dictionary)))
   \<and> (truthy (axis_value ax m) \<longrightarrow>
        select_axis py ax vals m w =
          (select_elements vals (axis_value ax m) (axis_caption ax), m, w))
   \<and> (select_axis py ax vals m w = (r, m', w') \<longrightarrow>
        no_query_sent (url m) w w' \<and>
        ((\<exists>e. r = Inl e \<and>
              check_dictionary py (axis_value ax m) (axis_caption ax) m w = (Inl e, m', w'))
         \<or> r = select_elements vals (axis_value ax m') (axis_caption ax)))"
proof -
  have "select_axis py ax vals m w =
          (select_elements vals (axis_value ax m) (axis_caption ax), m, w)"
    if "truthy (axis_value ax m)"
    using that by (simp add: select_axis_def check_dictionary_def)
  then show ?thesis
    using select_elements_general [of db elems vals caption]
      select_elements_strings [of vals dictionary caption]
      select_axis_frame [of py ax vals m w r m' w']
      select_axis_result [of py ax vals m w r m' w']
    by blast
qed

theorem select_validates_witness:
  "select_process_types example_py [''Migration'', ''Invasion'']
     (example_manager None (JArr [JStr ''Migration'', JStr ''Proliferation'']))
     (example_world credentials_file server_error)
   = (Inl (NotFoundError ''process_types'' {''Invasion''}),
      example_manager None (JArr [JStr ''Migration'', JStr ''Proliferation'']),
      example_world credentials_file server_error)
   \<and> select_elements [''Migration''] (JArr [JStr ''Migration'', JStr ''Proliferation''])
        ''process_types'' = Inr [''Migration'']
   \<and> fst (select_process_types example_py [''A'', ''D'']
        (example_manager (Some example_token) (JArr []))
        (example_world credentials_file names_answer)) =
      Inl (NotFoundError ''process_types'' {''D''})
   \<and> no_query_sent ''https://dev5db.insysbio.com''
        (example_world credentials_file names_answer)
        (snd (snd (select_process_types example_py [''A'', ''D'']
           (example_manager (Some example_token) (JArr []))
           (example_world credentials_file names_answer))))"
proof -
  let ?m = "example_manager None (JArr [JStr ''Migration'', JStr ''Proliferation''])"
  let ?w = "example_world credentials_file server_error"
  let ?n = "example_manager (Some example_token) (JArr [])"
  let ?v = "example_world credentials_file names_answer"
  have t: "truthy (axis_value ProcessTypes ?m)"
    by (simp add: example_manager_def)
  have v: "axis_value ProcessTypes ?m = JArr (map JStr [''Migration'', ''Proliferation''])"
    by (simp add: example_manager_def)
  note s = select_validates [where ax = ProcessTypes and m = ?m and py = example_py and w = ?w
      and dictionary = "[''Migration'', ''Proliferation'']" and caption = "''process_types''"]
  have 1: "select_axis example_py ProcessTypes [''Migration'', ''Invasion''] ?m ?w =
          (Inl (NotFoundError ''process_types'' {''Invasion''}), ?m, ?w)"
    using s [where vals = "[''Migration'', ''Invasion'']"] t
    unfolding v by auto
  have 2: "select_elements [''Migration''] (JArr [JStr ''Migration'', JStr ''Proliferation''])
        ''process_types'' = Inr [''Migration'']"
    using s [where vals = "[''Migration'']"] by simp
  have 3: "fst (select_process_types example_py [''A'', ''D''] ?n ?v) =
      Inl (NotFoundError ''process_types'' {''D''})"
    by (simp add: select_process_types_def select_axis_def check_dictionary_def
     load_dictionaries_def get_axis_def get_dictionary_def do_api_call_def ensure_token_def is_authenticated_def send_def
     example_manager_def example_token_def example_world_def names_answer_def
     dictionary_cache_path_def path_join_def credentials_file_def api_request_def
     select_elements_def)
  have run: "select_axis example_py ProcessTypes [''A'', ''D''] ?n ?v =
      (fst (select_axis example_py ProcessTypes [''A'', ''D''] ?n ?v),
       fst (snd (select_axis example_py ProcessTypes [''A'', ''D''] ?n ?v)),
       snd (snd (select_axis example_py ProcessTypes [''A'', ''D''] ?n ?v)))"
    by simp
  have "no_query_sent (url ?n) ?v (snd (snd (select_axis example_py ProcessTypes [''A'', ''D''] ?n ?v)))"
    using select_validates [where ax = ProcessTypes and m = ?n and py = example_py and w = ?v
      and vals = "[''A'', ''D'']", THEN conjunct2, THEN conjunct2, THEN conjunct2, THEN mp, OF run]
    by (rule conjunct1)
  then have 4: "no_query_sent ''https://dev5db.insysbio.com'' ?v
      (snd (snd (select_process_types example_py [''A'', ''D''] ?n ?v)))"
    by (simp add: select_process_types_def example_manager_def)
  show ?thesis
    using 1 2 3 4 by (simp add: select_process_types_def)
qed

subsection \<open>The token cache\<close>

lemma get_auth_token_path_reads [simp]:
  "get_auth_token_path m (w\<lparr>reads := n\<rparr>) = get_auth_token_path m w"
  by (simp add: get_auth_token_path_def)

lemma get_auth_token_path_sent [simp]:
  "get_auth_token_path m (w\<lparr>sent := n\<rparr>) = get_auth_token_path m w"
  by (simp add: get_auth_token_path_def)

lemma read_credentials_reads [simp]:
  "read_credentials py m (w\<lparr>reads := n\<rparr>) = read_credentials py m w"
  by (simp add: read_credentials_def)

lemma read_token_cache_absent:
  "files w (get_auth_token_path m w) = None \<Longrightarrow> read_token_cache py m w = (Inr None, w)"
  by (simp add: read_token_cache_def)

lemma read_token_cache_expired:
  "files w (get_auth_token_path m w) = Some (Json c) \<Longrightarrow>
   py_getitem c ''expires_in'' = Inr (JStr s) \<Longrightarrow> fromisoformat py s = Inr e \<Longrightarrow>
   e \<le> clock w (reads w) \<Longrightarrow>
   read_token_cache py m w = (Inr None, w\<lparr>reads := Suc (reads w)\<rparr>)"
  by (simp add: read_token_cache_def datetime_now_def)

lemma read_token_cache_valid:
  "files w (get_auth_token_path m w) = Some (Json c) \<Longrightarrow>
   py_getitem c ''expires_in'' = Inr (JStr s) \<Longrightarrow> fromisoformat py s = Inr e \<Longrightarrow>
   clock w (reads w) < e \<Longrightarrow> py_getitem c ''token'' = Inr tok \<Longrightarrow>
   read_token_cache py m w =
     (Inr (Some \<lparr>bt_token = tok, bt_expires_in = Some e, bt_response = None\<rparr>),
      w\<lparr>reads := Suc (reads w)\<rparr>)"
  by (simp add: read_token_cache_def datetime_now_def)

lemma request_auth_token_miss:
  "read_token_cache py m w = (Inr None, w1) \<Longrightarrow> read_credentials py m w1 = Inr (u, p) \<Longrightarrow>
   request_auth_token py m w =
     accept_token_response py (server w1 (sent w1) (token_request m u p)) m
       (w1\<lparr>sent := sent w1 @ [token_request m u p]\<rparr>)"
  by (simp add: request_auth_token_def send_def)

lemma py_getitem_contains: "py_getitem v k = Inr x \<Longrightarrow> py_contains k v = Inr True"
  by (cases v) (auto split: option.splits dest: map_of_SomeD intro: rev_image_eqI)

lemma accept_token_response_ok:
  assumes "status_code rsp = 200" and "body rsp = Json rd"
    and "py_getitem rd ''access_token'' = Inr tok"
    and "py_getitem rd ''expires_in'' = Inr life" and "py_int py life = Inr n"
    and "- 999999999 \<le> n div 86400" and "n div 86400 \<le> 999999999"
    and "0 \<le> clock w (reads w) + n * 1000000"
    and "clock w (reads w) + n * 1000000 \<le> datetime_max"
  shows "accept_token_response py rsp m w =
    (Inr \<lparr>bt_token = tok, bt_expires_in = Some (clock w (reads w) + n * 1000000),
          bt_response = Some rsp\<rparr>,
     m\<lparr>token := Some \<lparr>bt_token = tok, bt_expires_in = Some (clock w (reads w) + n * 1000000),
          bt_response = Some rsp\<rparr>\<rparr>,
     w\<lparr>reads := Suc (reads w),
       files := (files w)(get_auth_token_path m w \<mapsto>
          Json (JObj [(''token'', tok),
                      (''expires_in'', JStr (isoformat py (clock w (reads w) + n * 1000000)))]))\<rparr>)"
proof -
  have "fields_missing rd = Inr False"
    using assms(3,4) by (simp add: fields_missing_def py_getitem_contains)
  moreover have "new_expiry py rd (clock w (reads w)) = Inr (clock w (reads w) + n * 1000000)"
    using assms(4-9) by (simp add: new_expiry_def timedelta_seconds_def datetime_add_def)
  ultimately show ?thesis
    using assms(1-3)
    by (simp add: accept_token_response_def datetime_now_def token_file_def Let_def)
qed

lemma accept_token_response_failed:
  "status_code rsp \<noteq> 200 \<Longrightarrow>
   accept_token_response py rsp m w =
     (Inr \<lparr>bt_token = JStr [], bt_expires_in = None, bt_response = Some rsp\<rparr>,
      m\<lparr>token := Some \<lparr>bt_token = JStr [], bt_expires_in = None, bt_response = Some rsp\<rparr>\<rparr>, w)"
  by (simp add: accept_token_response_def Let_def)

lemma accept_token_response_sent:
  "sent (snd (snd (accept_token_response py rsp m w))) = sent w"
  using accept_token_response_frame [of py rsp m w]
  by (cases "accept_token_response py rsp m w") simp

text \<open>
  C2, as amended. When the cache file holds a token whose expiry is later than the clock's
  reading, \<^verbatim>\<open>request_auth_token\<close> returns that token and sends nothing. When
  there is no cache file, or the cached expiry is not later than the clock's reading, and
  the credentials can be read, it sends exactly one token request. If the answer has
  status 200 and gives an access token and a lifetime that \<^verbatim>\<open>int\<close> converts
  to \<open>n\<close>, with a representable sum, the new expiry is the reading \<open>clock w k\<close>
  taken after the answer plus \<open>n\<close> seconds, and the cache file is overwritten with
  the token and that expiry. If the answer has another status, the files are left as they
  were. (Index \<open>k\<close> counts the readings taken before: none when there was no file,
  one when the file was checked.)
\<close>

theorem cached_token_or_one_request:
  "(files w (get_auth_token_path m w) = Some (Json c) \<and>
    py_getitem c ''expires_in'' = Inr (JStr s) \<and> fromisoformat py s = Inr e \<and>
    clock w (reads w) < e \<and> py_getitem c ''token'' = Inr tok \<longrightarrow>
      request_auth_token py m w =
        (Inr \<lparr>bt_token = tok, bt_expires_in = Some e, bt_response = None\<rparr>,
         m\<lparr>token := Some \<lparr>bt_token = tok, bt_expires_in = Some e, bt_response = None\<rparr>\<rparr>,
         w\<lparr>reads := Suc (reads w)\<rparr>) \<and>
      sent (snd (snd (request_auth_token py m w))) = sent w)
   \<and> ((files w (get_auth_token_path m w) = None \<and> k = reads w \<or>
        files w (get_auth_token_path m w) = Some (Json c) \<and>
        py_getitem c ''expires_in'' = Inr (JStr s) \<and> fromisoformat py s = Inr e \<and>
        e \<le> clock w (reads w) \<and> k = Suc (reads w)) \<and>
       read_credentials py m w = Inr (u, p) \<and>
       rsp = server w (sent w) (token_request m u p) \<longrightarrow>
         sent (snd (snd (request_auth_token py m w))) = sent w @ [token_request m u p] \<and>
         (status_code rsp = 200 \<and> body rsp = Json rd \<and>
          py_getitem rd ''access_token'' = Inr tok' \<and>
          py_getitem rd ''expires_in'' = Inr life \<and> py_int py life = Inr n \<and>
          - 999999999 \<le> n div 86400 \<and> n div 86400 \<le> 999999999 \<and>
          0 \<le> clock w k + n * 1000000 \<and> clock w k + n * 1000000 \<le> datetime_max \<longrightarrow>
            request_auth_token py m w =
              (Inr \<lparr>bt_token = tok', bt_expires_in = Some (clock w k + n * 1000000),
                    bt_response = Some rsp\<rparr>,
               m\<lparr>token := Some \<lparr>bt_token = tok', bt_expires_in = Some (clock w k + n * 1000000),
                    bt_response = Some rsp\<rparr>\<rparr>,
               w\<lparr>reads := Suc k, sent := sent w @ [token_request m u p],
                 files := (files w)(get_auth_token_path m w \<mapsto>
                   Json (JObj [(''token'', tok'),
                     (''expires_in'', JStr (isoformat py (clock w k + n * 1000000)))]))\<rparr>)) \<and>
         (status_code rsp \<noteq> 200 \<longrightarrow>
            files (snd (snd (request_auth_token py m w))) = files w))"
proof (intro conjI impI)
  assume h: "files w (get_auth_token_path m w) = Some (Json c) \<and>
    py_getitem c ''expires_in'' = Inr (JStr s) \<and> fromisoformat py s = Inr e \<and>
    clock w (reads w) < e \<and> py_getitem c ''token'' = Inr tok"
  then have "read_token_cache py m w =
     (Inr (Some \<lparr>bt_token = tok, bt_expires_in = Some e, bt_response = None\<rparr>),
      w\<lparr>reads := Suc (reads w)\<rparr>)"
    by (simp add: read_token_cache_valid)
  then show hit: "request_auth_token py m w =
        (Inr \<lparr>bt_token = tok, bt_expires_in = Some e, bt_response = None\<rparr>,
         m\<lparr>token := Some \<lparr>bt_token = tok, bt_expires_in = Some e, bt_response = None\<rparr>\<rparr>,
         w\<lparr>reads := Suc (reads w)\<rparr>)"
    by (simp add: request_auth_token_def)
  show "sent (snd (snd (request_auth_token py m w))) = sent w"
    by (simp add: hit)
next
  assume h: "(files w (get_auth_token_path m w) = None \<and> k = reads w \<or>
        files w (get_auth_token_path m w) = Some (Json c) \<and>
        py_getitem c ''expires_in'' = Inr (JStr s) \<and> fromisoformat py s = Inr e \<and>
        e \<le> clock w (reads w) \<and> k = Suc (reads w)) \<and>
       read_credentials py m w = Inr (u, p) \<and>
       rsp = server w (sent w) (token_request m u p)"
  then have miss: "read_token_cache py m w = (Inr None, w\<lparr>reads := k\<rparr>)"
    using read_token_cache_absent [of w m py] read_token_cache_expired [of w m c s py e]
    by auto
  have run: "request_auth_token py m w =
     accept_token_response py rsp m (w\<lparr>reads := k, sent := sent w @ [token_request m u p]\<rparr>)"
    using request_auth_token_miss [OF miss, of u p] h by simp
  show "sent (snd (snd (request_auth_token py m w))) = sent w @ [token_request m u p]"
    by (simp add: run accept_token_response_sent)
  assume ok: "status_code rsp = 200 \<and> body rsp = Json rd \<and>
          py_getitem rd ''access_token'' = Inr tok' \<and>
          py_getitem rd ''expires_in'' = Inr life \<and> py_int py life = Inr n \<and>
          - 999999999 \<le> n div 86400 \<and> n div 86400 \<le> 999999999 \<and>
          0 \<le> clock w k + n * 1000000 \<and> clock w k + n * 1000000 \<le> datetime_max"
  show "request_auth_token py m w =
              (Inr \<lparr>bt_token = tok', bt_expires_in = Some (clock w k + n * 1000000),
                    bt_response = Some rsp\<rparr>,
               m\<lparr>token := Some \<lparr>bt_token = tok', bt_expires_in = Some (clock w k + n * 1000000),
                    bt_response = Some rsp\<rparr>\<rparr>,
               w\<lparr>reads := Suc k, sent := sent w @ [token_request m u p],
                 files := (files w)(get_auth_token_path m w \<mapsto>
                   Json (JObj [(''token'', tok'),
                     (''expires_in'', JStr (isoformat py (clock w k + n * 1000000)))]))\<rparr>)"
    unfolding run
    using ok
    by (subst accept_token_response_ok [where tok = tok' and n = n and rd = rd
          and life = life]) simp_all
next
  assume h: "(files w (get_auth_token_path m w) = None \<and> k = reads w \<or>
        files w (get_auth_token_path m w) = Some (Json c) \<and>
        py_getitem c ''expires_in'' = Inr (JStr s) \<and> fromisoformat py s = Inr e \<and>
        e \<le> clock w (reads w) \<and> k = Suc (reads w)) \<and>
       read_credentials py m w = Inr (u, p) \<and>
       rsp = server w (sent w) (token_request m u p)"
    and refused: "status_code rsp \<noteq> 200"
  from h have miss: "read_token_cache py m w = (Inr None, w\<lparr>reads := k\<rparr>)"
    using read_token_cache_absent [of w m py] read_token_cache_expired [of w m c s py e]
    by auto
  have run: "request_auth_token py m w =
     accept_token_response py rsp m (w\<lparr>reads := k, sent := sent w @ [token_request m u p]\<rparr>)"
    using request_auth_token_miss [OF miss, of u p] h by simp
  show "files (snd (snd (request_auth_token py m w))) = files w"
    using refused by (simp add: run accept_token_response_failed)
qed

lemma example_token_path:
  "get_auth_token_path (example_manager tok d) (example_world fs rsp) =
     ''/tmp/token_cache_unknown.json''"
  by (simp add: get_auth_token_path_def example_manager_def example_world_def path_join_def)

lemma example_credentials:
  "fs ''/home/user/fivedb_credentials.txt'' = Some (Text (''user secret'' @ [CHR 0x0A])) \<Longrightarrow>
   read_credentials py (example_manager tok d) (example_world fs rsp) = Inr (''user'', ''secret'')"
  by (simp add: read_credentials_def example_manager_def example_world_def
      readline_def strip_def is_space_def whitespace_def is_continuation_def)

lemma example_cache_credentials:
  "example_cache stamp ''/home/user/fivedb_credentials.txt'' =
     Some (Text (''user secret'' @ [CHR 0x0A]))"
  by (simp add: example_cache_def credentials_file_def)

text \<open>
  The claim as stated fails when the token request is refused: the cached expiry (five
  seconds) is not later than the clock's reading (ten seconds), one token request is
  sent, the answer has status 500, and the cache file still holds the stale entry.
\<close>

theorem stale_cache_kept_counterexample:
  "files (example_world (example_cache ''0001-01-01T00:00:05'') server_error)
     ''/tmp/token_cache_unknown.json'' =
     Some (Json (JObj [(''token'', JStr ''old''), (''expires_in'', JStr ''0001-01-01T00:00:05'')]))
   \<and> fromisoformat example_py ''0001-01-01T00:00:05'' = Inr 5000000
   \<and> clock (example_world (example_cache ''0001-01-01T00:00:05'') server_error) 0 = 10000000
   \<and> sent (snd (snd (request_auth_token example_py (example_manager None (JArr []))
        (example_world (example_cache ''0001-01-01T00:00:05'') server_error)))) =
      [token_request (example_manager None (JArr [])) ''user'' ''secret'']
   \<and> files (snd (snd (request_auth_token example_py (example_manager None (JArr []))
        (example_world (example_cache ''0001-01-01T00:00:05'') server_error))))
        ''/tmp/token_cache_unknown.json'' =
      Some (Json (JObj [(''token'', JStr ''old''), (''expires_in'', JStr ''0001-01-01T00:00:05'')]))"
proof -
  let ?m = "example_manager None (JArr [])"
  let ?w = "example_world (example_cache ''0001-01-01T00:00:05'') server_error"
  have f: "files ?w ''/tmp/token_cache_unknown.json'' =
     Some (Json (JObj [(''token'', JStr ''old''), (''expires_in'', JStr ''0001-01-01T00:00:05'')]))"
    by (simp add: example_world_def example_cache_def)
  have c: "read_token_cache example_py ?m ?w = (Inr None, ?w\<lparr>reads := Suc (reads ?w)\<rparr>)"
    by (rule read_token_cache_expired [where s = "''0001-01-01T00:00:05''" and e = 5000000])
       (simp_all add: example_token_path f, simp_all add: example_py_def example_world_def)
  have r: "request_auth_token example_py ?m ?w =
     accept_token_response example_py server_error ?m
       (?w\<lparr>reads := Suc (reads ?w), sent := [token_request ?m ''user'' ''secret'']\<rparr>)"
    using request_auth_token_miss [OF c, of "''user''" "''secret''"]
    by (simp add: example_credentials example_cache_credentials)
       (simp add: example_world_def)
  show ?thesis
    unfolding r
    by (simp add: accept_token_response_failed server_error_def f)
       (simp add: example_world_def example_py_def example_cache_def)
qed

theorem cached_token_or_one_request_witness:
  "request_auth_token example_py (example_manager None (JArr []))
     (example_world (example_cache ''0001-01-01T01:00:10'') server_error) =
     (Inr \<lparr>bt_token = JStr ''old'', bt_expires_in = Some 3610000000, bt_response = None\<rparr>,
      (example_manager None (JArr []))
        \<lparr>token := Some \<lparr>bt_token = JStr ''old'', bt_expires_in = Some 3610000000,
                         bt_response = None\<rparr>\<rparr>,
      (example_world (example_cache ''0001-01-01T01:00:10'') server_error)\<lparr>reads := 1\<rparr>)
   \<and> request_auth_token example_py (example_manager None (JArr []))
     (example_world (example_cache ''0001-01-01T00:00:05'') token_granted) =
     (Inr \<lparr>bt_token = JStr ''abc'', bt_expires_in = Some 3610000000,
           bt_response = Some token_granted\<rparr>,
      (example_manager None (JArr []))
        \<lparr>token := Some \<lparr>bt_token = JStr ''abc'', bt_expires_in = Some 3610000000,
                         bt_response = Some token_granted\<rparr>\<rparr>,
      (example_world (example_cache ''0001-01-01T00:00:05'') token_granted)
        \<lparr>reads := 2,
         sent := [token_request (example_manager None (JArr [])) ''user'' ''secret''],
         files := (example_cache ''0001-01-01T00:00:05'')(''/tmp/token_cache_unknown.json'' \<mapsto>
            Json (JObj [(''token'', JStr ''abc''),
                        (''expires_in'', JStr ''0001-01-01T01:00:10'')]))\<rparr>)
   \<and> files (snd (snd (request_auth_token example_py (example_manager None (JArr []))
       (example_world (example_cache ''0001-01-01T00:00:05'') server_error)))) =
     example_cache ''0001-01-01T00:00:05''"
proof -
  let ?x = "example_world (example_cache ''0001-01-01T00:00:05'') server_error"
  let ?m = "example_manager None (JArr [])"
  let ?v = "example_world (example_cache ''0001-01-01T01:00:10'') server_error"
  let ?w = "example_world (example_cache ''0001-01-01T00:00:05'') token_granted"
  have hit: "files ?v (get_auth_token_path ?m ?v) =
      Some (Json (JObj [(''token'', JStr ''old''), (''expires_in'', JStr ''0001-01-01T01:00:10'')])) \<and>
    py_getitem (JObj [(''token'', JStr ''old''), (''expires_in'', JStr ''0001-01-01T01:00:10'')])
      ''expires_in'' = Inr (JStr ''0001-01-01T01:00:10'') \<and>
    fromisoformat example_py ''0001-01-01T01:00:10'' = Inr 3610000000 \<and>
    clock ?v (reads ?v) < 3610000000 \<and>
    py_getitem (JObj [(''token'', JStr ''old''), (''expires_in'', JStr ''0001-01-01T01:00:10'')])
      ''token'' = Inr (JStr ''old'')"
    by (simp add: example_token_path) (simp add: example_world_def example_cache_def example_py_def)
  have miss: "files ?w (get_auth_token_path ?m ?w) =
      Some (Json (JObj [(''token'', JStr ''old''), (''expires_in'', JStr ''0001-01-01T00:00:05'')])) \<and>
    py_getitem (JObj [(''token'', JStr ''old''), (''expires_in'', JStr ''0001-01-01T00:00:05'')])
      ''expires_in'' = Inr (JStr ''0001-01-01T00:00:05'') \<and>
    fromisoformat example_py ''0001-01-01T00:00:05'' = Inr 5000000 \<and>
    5000000 \<le> clock ?w (reads ?w) \<and> Suc 0 = Suc (reads ?w)"
    by (simp add: example_token_path) (simp add: example_world_def example_cache_def example_py_def)
  have cred: "read_credentials example_py ?m ?w = Inr (''user'', ''secret'')"
    by (simp add: example_credentials example_cache_credentials)
  have rsp: "token_granted = server ?w (sent ?w) (token_request ?m ''user'' ''secret'')"
    by (simp add: example_world_def)
  have ok: "status_code token_granted = 200 \<and>
    body token_granted = Json (JObj [(''access_token'', JStr ''abc''), (''expires_in'', JNum 3600)]) \<and>
    py_getitem (JObj [(''access_token'', JStr ''abc''), (''expires_in'', JNum 3600)])
      ''access_token'' = Inr (JStr ''abc'') \<and>
    py_getitem (JObj [(''access_token'', JStr ''abc''), (''expires_in'', JNum 3600)])
      ''expires_in'' = Inr (JNum 3600) \<and>
    py_int example_py (JNum 3600) = Inr 3600 \<and>
    - 999999999 \<le> (3600::int) div 86400 \<and> (3600::int) div 86400 \<le> 999999999 \<and>
    0 \<le> clock ?w (Suc 0) + 3600 * 1000000 \<and> clock ?w (Suc 0) + 3600 * 1000000 \<le> datetime_max"
    by (simp add: token_granted_def example_world_def datetime_max_def)
  have 1: "request_auth_token example_py ?m ?v =
     (Inr \<lparr>bt_token = JStr ''old'', bt_expires_in = Some 3610000000, bt_response = None\<rparr>,
      ?m\<lparr>token := Some \<lparr>bt_token = JStr ''old'', bt_expires_in = Some 3610000000,
                         bt_response = None\<rparr>\<rparr>,
      ?v\<lparr>reads := Suc (reads ?v)\<rparr>)"
    using cached_token_or_one_request [where py = example_py and m = ?m and w = ?v
        and s = "''0001-01-01T01:00:10''" and e = 3610000000 and tok = "JStr ''old''"
        and c = "JObj [(''token'', JStr ''old''), (''expires_in'', JStr ''0001-01-01T01:00:10'')]"]
      hit by blast
  have 2: "request_auth_token example_py ?m ?w =
     (Inr \<lparr>bt_token = JStr ''abc'', bt_expires_in = Some (clock ?w (Suc 0) + 3600 * 1000000),
           bt_response = Some token_granted\<rparr>,
      ?m\<lparr>token := Some \<lparr>bt_token = JStr ''abc'',
            bt_expires_in = Some (clock ?w (Suc 0) + 3600 * 1000000),
            bt_response = Some token_granted\<rparr>\<rparr>,
      ?w\<lparr>reads := Suc (Suc 0), sent := sent ?w @ [token_request ?m ''user'' ''secret''],
         files := (files ?w)(get_auth_token_path ?m ?w \<mapsto>
            Json (JObj [(''token'', JStr ''abc''),
              (''expires_in'', JStr (isoformat example_py (clock ?w (Suc 0) + 3600 * 1000000)))]))\<rparr>)"
    using cached_token_or_one_request [where py = example_py and m = ?m and w = ?w
        and s = "''0001-01-01T00:00:05''" and e = 5000000 and k = "Suc 0"
        and c = "JObj [(''token'', JStr ''old''), (''expires_in'', JStr ''0001-01-01T00:00:05'')]"
        and u = "''user''" and p = "''secret''" and rsp = token_granted
        and rd = "JObj [(''access_token'', JStr ''abc''), (''expires_in'', JNum 3600)]"
        and tok' = "JStr ''abc''" and life = "JNum 3600" and n = 3600]
      miss cred rsp ok by blast
  have stale: "(files ?x (get_auth_token_path ?m ?x) = None \<and> Suc 0 = reads ?x \<or>
    files ?x (get_auth_token_path ?m ?x) =
      Some (Json (JObj [(''token'', JStr ''old''), (''expires_in'', JStr ''0001-01-01T00:00:05'')])) \<and>
    py_getitem (JObj [(''token'', JStr ''old''), (''expires_in'', JStr ''0001-01-01T00:00:05'')])
      ''expires_in'' = Inr (JStr ''0001-01-01T00:00:05'') \<and>
    fromisoformat example_py ''0001-01-01T00:00:05'' = Inr 5000000 \<and>
    5000000 \<le> clock ?x (reads ?x) \<and> Suc 0 = Suc (reads ?x)) \<and>
    read_credentials example_py ?m ?x = Inr (''user'', ''secret'') \<and>
    server_error = server ?x (sent ?x) (token_request ?m ''user'' ''secret'')"
    by (simp add: example_token_path example_credentials example_cache_credentials)
       (simp add: example_world_def example_cache_def example_py_def)
  have refused: "status_code server_error \<noteq> 200"
    by (simp add: server_error_def)
  have 3: "files (snd (snd (request_auth_token example_py ?m ?x))) = files ?x"
    using cached_token_or_one_request [where py = example_py and m = ?m and w = ?x
        and s = "''0001-01-01T00:00:05''" and e = 5000000 and k = "Suc 0"
        and c = "JObj [(''token'', JStr ''old''), (''expires_in'', JStr ''0001-01-01T00:00:05'')]"
        and u = "''user''" and p = "''secret''" and rsp = server_error]
      stale refused by blast
  show ?thesis
    unfolding 1 2 3
    by (simp add: example_token_path) (simp add: example_world_def example_py_def)
qed

subsection \<open>Selection of output columns\<close>

lemma filter_Cons_find: "filter P xs = r # rs \<Longrightarrow> find P xs = Some r"
  by (induction xs) (auto split: if_splits)

lemma column_match_found:
  assumes "''ColumnDesc'' \<in> set (columns df)" and "''ColumnVariable'' \<in> set (columns df)"
    and "\<exists>r\<in>set (rows df). cell r ''ColumnDesc'' = JStr d"
  shows "\<exists>vs. column_match df d =
     Inr (cell (the (find (\<lambda>r. cell r ''ColumnDesc'' = JStr d) (rows df))) ''ColumnVariable'' # vs)"
proof -
  obtain r rs where f: "filter (\<lambda>r. cell r ''ColumnDesc'' = JStr d) (rows df) = r # rs"
    using assms(3) by (cases "filter (\<lambda>r. cell r ''ColumnDesc'' = JStr d) (rows df)")
      (auto simp: filter_empty_conv)
  then show ?thesis
    using assms(1,2) filter_Cons_find [OF f] by (simp add: column_match_def)
qed

lemma column_match_absent:
  assumes "''ColumnDesc'' \<in> set (columns df)" and "''ColumnVariable'' \<in> set (columns df)"
    and "\<forall>r\<in>set (rows df). cell r ''ColumnDesc'' \<noteq> JStr d"
  shows "column_match df d = Inr []"
  using assms by (simp add: column_match_def filter_empty_conv)

lemma select_variables_all:
  assumes "''ColumnDesc'' \<in> set (columns df)" and "''ColumnVariable'' \<in> set (columns df)"
  shows "\<forall>d\<in>set descs. \<exists>r\<in>set (rows df). cell r ''ColumnDesc'' = JStr d \<Longrightarrow>
    select_variables df descs =
      Inr (map (\<lambda>d. cell (the (find (\<lambda>r. cell r ''ColumnDesc'' = JStr d) (rows df)))
                  ''ColumnVariable'') descs)"
proof (induction descs)
  case Nil
  then show ?case by simp
next
  case (Cons d descs)
  then obtain vs where "column_match df d =
     Inr (cell (the (find (\<lambda>r. cell r ''ColumnDesc'' = JStr d) (rows df))) ''ColumnVariable'' # vs)"
    using column_match_found [OF assms, of d] by auto
  with Cons show ?case by simp
qed

lemma select_variables_first_absent:
  assumes "''ColumnDesc'' \<in> set (columns df)" and "''ColumnVariable'' \<in> set (columns df)"
    and "\<forall>r\<in>set (rows df). cell r ''ColumnDesc'' \<noteq> JStr d"
  shows "\<forall>x\<in>set pre. \<exists>r\<in>set (rows df). cell r ''ColumnDesc'' = JStr x \<Longrightarrow>
    select_variables df (pre @ d # post) = Inl (ValueError (not_found_message d))"
proof (induction pre)
  case Nil
  then show ?case using column_match_absent [OF assms] by simp
next
  case (Cons x pre)
  then obtain vs where "column_match df x =
     Inr (cell (the (find (\<lambda>r. cell r ''ColumnDesc'' = JStr x) (rows df))) ''ColumnVariable'' # vs)"
    using column_match_found [OF assms(1,2), of x] by auto
  with Cons show ?case by simp
qed

text \<open>
  C3, as amended. On a loaded catalog (a table with at least one row and the columns
  \<^verbatim>\<open>ColumnDesc\<close> and \<^verbatim>\<open>ColumnVariable\<close>),
  \<^verbatim>\<open>select_header\<close> returns for each requested description the variable of
  the first row whose description equals it, in the order requested, when every
  description has such a row. Otherwise the whole selection fails, with no partial
  result, and the error names the first requested description that has no row.
\<close>

theorem select_header_first_absent:
  "\<not> df_empty (headers_df m) \<and> ''ColumnDesc'' \<in> set (columns (headers_df m)) \<and>
   ''ColumnVariable'' \<in> set (columns (headers_df m)) \<longrightarrow>
     ((\<forall>d\<in>set descs. \<exists>r\<in>set (rows (headers_df m)). cell r ''ColumnDesc'' = JStr d) \<longrightarrow>
        select_header m descs =
          Inr (map (\<lambda>d. cell (the (find (\<lambda>r. cell r ''ColumnDesc'' = JStr d)
                                     (rows (headers_df m)))) ''ColumnVariable'') descs))
     \<and> ((\<forall>x\<in>set pre. \<exists>r\<in>set (rows (headers_df m)). cell r ''ColumnDesc'' = JStr x) \<and>
        (\<forall>r\<in>set (rows (headers_df m)). cell r ''ColumnDesc'' \<noteq> JStr d) \<longrightarrow>
        select_header m (pre @ d # post) = Inl (ValueError (not_found_message d)))"
  using select_variables_all [of "headers_df m" descs]
    select_variables_first_absent [of "headers_df m" d pre post]
  by (simp add: select_header_def)

text \<open>
  The claim as stated fails: of the two absent descriptions requested, the error names
  the first only. And on a catalog that is not loaded even the empty request raises.
\<close>

theorem select_header_full_list_counterexample:
  "select_header ((example_manager None (JArr []))\<lparr>headers_df := example_catalog\<rparr>)
     [''Parameter'', ''Unit'', ''Species''] =
     Inl (ValueError (''Column description '' @ [CHR 0x27] @ ''Unit'' @ [CHR 0x27] @ '' not found.''))
   \<and> column_match example_catalog ''Species'' = Inr []
   \<and> \<not> substring ''Species''
        (''Column description '' @ [CHR 0x27] @ ''Unit'' @ [CHR 0x27] @ '' not found.'')
   \<and> select_header (example_manager None (JArr [])) [] =
       Inl (ValueError ''Headers not loaded. Use query_headers to load data.'')"
  by (simp add: select_header_def df_empty_def example_manager_def example_catalog_def
      column_match_def cell_def not_found_message_def)

theorem select_header_first_absent_witness:
  "select_header ((example_manager None (JArr []))\<lparr>headers_df := example_catalog\<rparr>)
     [''Parameter value'', ''Parameter''] = Inr [JStr ''param_val'', JStr ''param'']
   \<and> select_header ((example_manager None (JArr []))\<lparr>headers_df := example_catalog\<rparr>)
     ([''Parameter''] @ ''Unit'' # [''Species'']) = Inl (ValueError (not_found_message ''Unit''))"
proof -
  let ?m = "(example_manager None (JArr []))\<lparr>headers_df := example_catalog\<rparr>"
  have df: "headers_df ?m = example_catalog" by simp
  have h: "\<not> df_empty (headers_df ?m) \<and> ''ColumnDesc'' \<in> set (columns (headers_df ?m)) \<and>
   ''ColumnVariable'' \<in> set (columns (headers_df ?m))"
    unfolding df by (simp add: df_empty_def example_catalog_def)
  have a: "\<forall>d\<in>set [''Parameter value'', ''Parameter''].
     \<exists>r\<in>set (rows (headers_df ?m)). cell r ''ColumnDesc'' = JStr d"
    unfolding df by (simp add: example_catalog_def cell_def)
  have b: "(\<forall>x\<in>set [''Parameter'']. \<exists>r\<in>set (rows (headers_df ?m)). cell r ''ColumnDesc'' = JStr x) \<and>
        (\<forall>r\<in>set (rows (headers_df ?m)). cell r ''ColumnDesc'' \<noteq> JStr ''Unit'')"
    unfolding df by (simp add: example_catalog_def cell_def)
  have 1: "select_header ?m [''Parameter value'', ''Parameter''] =
       Inr (map (\<lambda>d. cell (the (find (\<lambda>r. cell r ''ColumnDesc'' = JStr d)
                                     (rows (headers_df ?m)))) ''ColumnVariable'')
              [''Parameter value'', ''Parameter''])"
    using select_header_first_absent [where m = ?m
        and descs = "[''Parameter value'', ''Parameter'']"] h a by blast
  have 2: "select_header ?m ([''Parameter''] @ ''Unit'' # [''Species'']) =
       Inl (ValueError (not_found_message ''Unit''))"
    using select_header_first_absent [where m = ?m
        and pre = "[''Parameter'']" and d = "''Unit''" and post = "[''Species'']"] h b
    by blast
  show ?thesis
    unfolding 1 2 df by (simp add: example_catalog_def cell_def)
qed

subsection \<open>Authentication failure\<close>

lemma fields_missing_dict:
  "fields_missing (JObj kvs) =
     Inr (\<not> (''access_token'' \<in> fst ` set kvs \<and> ''expires_in'' \<in> fst ` set kvs))"
  by (simp add: fields_missing_def split: bool.splits)

lemma accept_token_response_incomplete:
  "status_code rsp = 200 \<Longrightarrow> body rsp = Json (JObj kvs) \<Longrightarrow>
   \<not> (''access_token'' \<in> fst ` set kvs \<and> ''expires_in'' \<in> fst ` set kvs) \<Longrightarrow>
   accept_token_response py rsp m w =
     (Inl (ValueError ''Access token or expires_in is missing in the API response.''), m, w)"
  by (simp add: accept_token_response_def fields_missing_dict)

lemma marker_not_authenticated:
  "\<not> is_authenticated (m\<lparr>token := Some \<lparr>bt_token = JStr [], bt_expires_in = None,
                                       bt_response = r\<rparr>\<rparr>)"
  by (simp add: is_authenticated_def)

lemma do_api_call_token_refused:
  assumes "\<not> is_authenticated m"
    and "request_auth_token py m w =
      (Inr \<lparr>bt_token = JStr [], bt_expires_in = None, bt_response = r\<rparr>,
       m\<lparr>token := Some \<lparr>bt_token = JStr [], bt_expires_in = None, bt_response = r\<rparr>\<rparr>, w')"
  shows "do_api_call py u params m w =
     (Inl (Exception ''User is not authenticated. Token request failed.''),
      m\<lparr>token := Some \<lparr>bt_token = JStr [], bt_expires_in = None, bt_response = r\<rparr>\<rparr>, w')"
  using assms by (simp add: do_api_call_def ensure_token_def)

text \<open>
  C4. Let the token request reach the server (no valid cached token, readable
  credentials). If the answer has status 200 but its object lacks the access token or the
  lifetime, \<^verbatim>\<open>request_auth_token\<close> raises the configuration error. If the
  answer has another status, it raises nothing and returns the marker with the empty
  token, which it also stores in the manager; a manager holding the marker is not
  authenticated. The API call that depends on the token, made without a usable one (as
  is the call that follows a refused request), has its token request refused and then
  raises before any GET request is sent.
\<close>

theorem authentication_failure:
  "(files w (get_auth_token_path m w) = None \<and> k = reads w \<or>
    files w (get_auth_token_path m w) = Some (Json c) \<and>
    py_getitem c ''expires_in'' = Inr (JStr s) \<and> fromisoformat py s = Inr e \<and>
    e \<le> clock w (reads w) \<and> k = Suc (reads w)) \<and>
   read_credentials py m w = Inr (u, p) \<and>
   rsp = server w (sent w) (token_request m u p) \<longrightarrow>
     (status_code rsp = 200 \<and> body rsp = Json (JObj kvs) \<and>
      \<not> (''access_token'' \<in> fst ` set kvs \<and> ''expires_in'' \<in> fst ` set kvs) \<longrightarrow>
        request_auth_token py m w =
          (Inl (ValueError ''Access token or expires_in is missing in the API response.''),
           m, w\<lparr>reads := k, sent := sent w @ [token_request m u p]\<rparr>))
     \<and> (status_code rsp \<noteq> 200 \<longrightarrow>
        request_auth_token py m w =
          (Inr \<lparr>bt_token = JStr [], bt_expires_in = None, bt_response = Some rsp\<rparr>,
           m\<lparr>token := Some \<lparr>bt_token = JStr [], bt_expires_in = None,
                             bt_response = Some rsp\<rparr>\<rparr>,
           w\<lparr>reads := k, sent := sent w @ [token_request m u p]\<rparr>)
        \<and> \<not> is_authenticated
             (m\<lparr>token := Some \<lparr>bt_token = JStr [], bt_expires_in = None,
                               bt_response = Some rsp\<rparr>\<rparr>)
        \<and> (\<not> is_authenticated m \<longrightarrow>
             do_api_call py path params m w =
               (Inl (Exception ''User is not authenticated. Token request failed.''),
                m\<lparr>token := Some \<lparr>bt_token = JStr [], bt_expires_in = None,
                                  bt_response = Some rsp\<rparr>\<rparr>,
                w\<lparr>reads := k, sent := sent w @ [token_request m u p]\<rparr>)))"
proof (intro impI)
  assume h: "(files w (get_auth_token_path m w) = None \<and> k = reads w \<or>
    files w (get_auth_token_path m w) = Some (Json c) \<and>
    py_getitem c ''expires_in'' = Inr (JStr s) \<and> fromisoformat py s = Inr e \<and>
    e \<le> clock w (reads w) \<and> k = Suc (reads w)) \<and>
   read_credentials py m w = Inr (u, p) \<and>
   rsp = server w (sent w) (token_request m u p)"
  then have miss: "read_token_cache py m w = (Inr None, w\<lparr>reads := k\<rparr>)"
    using read_token_cache_absent [of w m py] read_token_cache_expired [of w m c s py e]
    by auto
  have run: "request_auth_token py m w =
     accept_token_response py rsp m (w\<lparr>reads := k, sent := sent w @ [token_request m u p]\<rparr>)"
    using request_auth_token_miss [OF miss, of u p] h by simp
  have a: "request_auth_token py m w =
          (Inl (ValueError ''Access token or expires_in is missing in the API response.''),
           m, w\<lparr>reads := k, sent := sent w @ [token_request m u p]\<rparr>)"
    if "status_code rsp = 200 \<and> body rsp = Json (JObj kvs) \<and>
      \<not> (''access_token'' \<in> fst ` set kvs \<and> ''expires_in'' \<in> fst ` set kvs)"
    unfolding run using that by (intro accept_token_response_incomplete) auto
  have b: "request_auth_token py m w =
          (Inr \<lparr>bt_token = JStr [], bt_expires_in = None, bt_response = Some rsp\<rparr>,
           m\<lparr>token := Some \<lparr>bt_token = JStr [], bt_expires_in = None,
                             bt_response = Some rsp\<rparr>\<rparr>,
           w\<lparr>reads := k, sent := sent w @ [token_request m u p]\<rparr>)"
    if "status_code rsp \<noteq> 200"
    unfolding run using that by (rule accept_token_response_failed)
  show "(status_code rsp = 200 \<and> body rsp = Json (JObj kvs) \<and>
      \<not> (''access_token'' \<in> fst ` set kvs \<and> ''expires_in'' \<in> fst ` set kvs) \<longrightarrow>
        request_auth_token py m w =
          (Inl (ValueError ''Access token or expires_in is missing in the API response.''),
           m, w\<lparr>reads := k, sent := sent w @ [token_request m u p]\<rparr>))
     \<and> (status_code rsp \<noteq> 200 \<longrightarrow>
        request_auth_token py m w =
          (Inr \<lparr>bt_token = JStr [], bt_expires_in = None, bt_response = Some rsp\<rparr>,
           m\<lparr>token := Some \<lparr>bt_token = JStr [], bt_expires_in = None,
                             bt_response = Some rsp\<rparr>\<rparr>,
           w\<lparr>reads := k, sent := sent w @ [token_request m u p]\<rparr>)
        \<and> \<not> is_authenticated
             (m\<lparr>token := Some \<lparr>bt_token = JStr [], bt_expires_in = None,
                               bt_response = Some rsp\<rparr>\<rparr>)
        \<and> (\<not> is_authenticated m \<longrightarrow>
             do_api_call py path params m w =
               (Inl (Exception ''User is not authenticated. Token request failed.''),
                m\<lparr>token := Some \<lparr>bt_token = JStr [], bt_expires_in = None,
                                  bt_response = Some rsp\<rparr>\<rparr>,
                w\<lparr>reads := k, sent := sent w @ [token_request m u p]\<rparr>)))"
    using a b marker_not_authenticated [where m = m and r = "Some rsp"]
      do_api_call_token_refused [where m = m and py = py and w = w and r = "Some rsp"
        and u = path and params = params]
    by blast
qed

lemma example_credentials_file:
  "credentials_file ''/home/user/fivedb_credentials.txt'' =
     Some (Text (''user secret'' @ [CHR 0x0A]))"
  by (simp add: credentials_file_def)

lemma example_no_token_file: "credentials_file ''/tmp/token_cache_unknown.json'' = None"
  by (simp add: credentials_file_def)

theorem authentication_failure_witness:
  "request_auth_token example_py (example_manager None (JArr []))
      (example_world credentials_file incomplete_grant) =
     (Inl (ValueError ''Access token or expires_in is missing in the API response.''),
      example_manager None (JArr []),
      (example_world credentials_file incomplete_grant)
        \<lparr>sent := [token_request (example_manager None (JArr [])) ''user'' ''secret'']\<rparr>)
   \<and> request_auth_token example_py (example_manager None (JArr []))
      (example_world credentials_file server_error) =
     (Inr \<lparr>bt_token = JStr [], bt_expires_in = None, bt_response = Some server_error\<rparr>,
      example_manager
        (Some \<lparr>bt_token = JStr [], bt_expires_in = None, bt_response = Some server_error\<rparr>)
        (JArr []),
      (example_world credentials_file server_error)
        \<lparr>sent := [token_request (example_manager None (JArr [])) ''user'' ''secret'']\<rparr>)
   \<and> do_api_call example_py ''/api/v1/process_types'' None
      (example_manager
        (Some \<lparr>bt_token = JStr [], bt_expires_in = None, bt_response = Some server_error\<rparr>)
        (JArr []))
      ((example_world credentials_file server_error)
        \<lparr>sent := [token_request (example_manager None (JArr [])) ''user'' ''secret'']\<rparr>) =
     (Inl (Exception ''User is not authenticated. Token request failed.''),
      example_manager
        (Some \<lparr>bt_token = JStr [], bt_expires_in = None, bt_response = Some server_error\<rparr>)
        (JArr []),
      (example_world credentials_file server_error)
        \<lparr>sent := [token_request (example_manager None (JArr [])) ''user'' ''secret'',
                  token_request (example_manager None (JArr [])) ''user'' ''secret'']\<rparr>)"
proof -
  let ?m = "example_manager None (JArr [])"
  let ?t = "\<lparr>bt_token = JStr [], bt_expires_in = None, bt_response = Some server_error\<rparr>"
  let ?m' = "example_manager (Some ?t) (JArr [])"
  let ?v = "example_world credentials_file incomplete_grant"
  let ?w = "example_world credentials_file server_error"
  let ?rq = "token_request ?m ''user'' ''secret''"
  let ?w' = "?w\<lparr>sent := [?rq]\<rparr>"
  have rq: "token_request ?m' ''user'' ''secret'' = ?rq"
    by (simp add: token_request_def example_manager_def)
  have m': "?m\<lparr>token := Some ?t\<rparr> = ?m'" "?m'\<lparr>token := Some ?t\<rparr> = ?m'"
    by (simp_all add: example_manager_def)
  have hv: "(files ?v (get_auth_token_path ?m ?v) = None \<and> 0 = reads ?v \<or>
    files ?v (get_auth_token_path ?m ?v) = Some (Json JNull) \<and>
    py_getitem JNull ''expires_in'' = Inr (JStr []) \<and> fromisoformat example_py [] = Inr 0 \<and>
    0 \<le> clock ?v (reads ?v) \<and> 0 = Suc (reads ?v)) \<and>
   read_credentials example_py ?m ?v = Inr (''user'', ''secret'') \<and>
   incomplete_grant = server ?v (sent ?v) ?rq"
    by (simp add: example_token_path example_credentials example_credentials_file)
       (simp add: example_world_def example_no_token_file)
  have hw: "(files ?w (get_auth_token_path ?m ?w) = None \<and> 0 = reads ?w \<or>
    files ?w (get_auth_token_path ?m ?w) = Some (Json JNull) \<and>
    py_getitem JNull ''expires_in'' = Inr (JStr []) \<and> fromisoformat example_py [] = Inr 0 \<and>
    0 \<le> clock ?w (reads ?w) \<and> 0 = Suc (reads ?w)) \<and>
   read_credentials example_py ?m ?w = Inr (''user'', ''secret'') \<and>
   server_error = server ?w (sent ?w) ?rq"
    by (simp add: example_token_path example_credentials example_credentials_file)
       (simp add: example_world_def example_no_token_file)
  have hw': "(files ?w' (get_auth_token_path ?m' ?w') = None \<and> 0 = reads ?w' \<or>
    files ?w' (get_auth_token_path ?m' ?w') = Some (Json JNull) \<and>
    py_getitem JNull ''expires_in'' = Inr (JStr []) \<and> fromisoformat example_py [] = Inr 0 \<and>
    0 \<le> clock ?w' (reads ?w') \<and> 0 = Suc (reads ?w')) \<and>
   read_credentials example_py ?m' ?w' = Inr (''user'', ''secret'') \<and>
   server_error = server ?w' (sent ?w') (token_request ?m' ''user'' ''secret'')"
    by (simp add: example_token_path)
       (simp add: example_world_def example_no_token_file read_credentials_def
          example_manager_def credentials_file_def readline_def strip_def is_space_def whitespace_def is_continuation_def)
  have inc: "status_code incomplete_grant = 200 \<and>
      body incomplete_grant = Json (JObj [(''access_token'', JStr ''abc'')]) \<and>
      \<not> (''access_token'' \<in> fst ` set [(''access_token'', JStr ''abc'')] \<and>
         ''expires_in'' \<in> fst ` set [(''access_token'', JStr ''abc'')])"
    by (simp add: incomplete_grant_def)
  have err: "status_code server_error \<noteq> 200"
    by (simp add: server_error_def)
  have na: "\<not> is_authenticated ?m'"
    by (simp add: is_authenticated_def example_manager_def)
  have 1: "request_auth_token example_py ?m ?v =
     (Inl (ValueError ''Access token or expires_in is missing in the API response.''),
      ?m, ?v\<lparr>reads := 0, sent := sent ?v @ [?rq]\<rparr>)"
    using authentication_failure [where py = example_py and m = ?m and w = ?v and k = 0
        and c = JNull and s = "[]" and e = 0 and u = "''user''" and p = "''secret''"
        and rsp = incomplete_grant and kvs = "[(''access_token'', JStr ''abc'')]"]
      hv inc by blast
  have 2: "request_auth_token example_py ?m ?w =
     (Inr ?t, ?m\<lparr>token := Some ?t\<rparr>, ?w\<lparr>reads := 0, sent := sent ?w @ [?rq]\<rparr>)"
    using authentication_failure [where py = example_py and m = ?m and w = ?w and k = 0
        and c = JNull and s = "[]" and e = 0 and u = "''user''" and p = "''secret''"
        and rsp = server_error]
      hw err by blast
  have 3: "do_api_call example_py ''/api/v1/process_types'' None ?m' ?w' =
     (Inl (Exception ''User is not authenticated. Token request failed.''),
      ?m'\<lparr>token := Some ?t\<rparr>,
      ?w'\<lparr>reads := 0, sent := sent ?w' @ [token_request ?m' ''user'' ''secret'']\<rparr>)"
    using authentication_failure [where py = example_py and m = ?m' and w = ?w' and k = 0
        and c = JNull and s = "[]" and e = 0 and u = "''user''" and p = "''secret''"
        and rsp = server_error and path = "''/api/v1/process_types''" and params = None]
      hw' err na by blast
  show ?thesis
    unfolding 1 2 3 m' rq by (simp add: example_world_def)
qed

subsection \<open>The query\<close>

lemma do_api_call_authenticated:
  assumes "token m = Some t" and "truthy (bt_token t)"
  shows "do_api_call py u params m w =
     (Inr \<lparr>content = (if status_code (server w (sent w) (api_request py m u params (bt_token t))) = 200
                      then body (server w (sent w) (api_request py m u params (bt_token t)))
                      else Text []),
           response = server w (sent w) (api_request py m u params (bt_token t))\<rparr>,
      m, w\<lparr>sent := sent w @ [api_request py m u params (bt_token t)]\<rparr>)"
  using assms by (simp add: do_api_call_def ensure_token_def is_authenticated_def send_def)

lemma as_records_objects: "as_records (map JObj records) = Some records"
  by (induction records) simp_all

lemma pd_DataFrame_records:
  "pd_DataFrame py (JArr (map JObj records)) =
     Inr \<lparr>columns = first_seen (concat (map (map fst) records)), rows = records\<rparr>"
  by (simp add: pd_DataFrame_def as_records_objects)

lemma query_call_authenticated:
  assumes "token m = Some t" and "truthy (bt_token t)"
    and "rq = api_request py m ''/api/v1/query_data'' (Some params) (bt_token t)"
    and "rsp = server w (sent w) rq"
  shows "(status_code rsp = 200 \<and> body rsp = Json (JArr (map JObj records)) \<longrightarrow>
           query_call py params m w =
             (Inr (Some \<lparr>columns = first_seen (concat (map (map fst) records)), rows = records\<rparr>),
              m, w\<lparr>sent := sent w @ [rq]\<rparr>))
       \<and> (status_code rsp \<noteq> 200 \<longrightarrow>
           query_call py params m w = (Inr None, m, w\<lparr>sent := sent w @ [rq]\<rparr>))"
  using assms
  by (simp add: query_call_def do_api_call_authenticated pd_DataFrame_records)

text \<open>
  C5. With a usable token held, \<^verbatim>\<open>query_data\<close> of either manager sends one
  GET request to the query endpoint whose parameters are, per axis, the selected values
  joined with a comma, then the header variables joined with a comma and the extra flag.
  When the answer has status 200 and its payload is a JSON array of row objects, the
  result is the table of these rows; on any other status the result is
  \<^verbatim>\<open>None\<close> and nothing is raised. The manager is left as it is.
\<close>

theorem query_data_contract:
  "token m = Some t \<and> truthy (bt_token t) \<and>
   rq = Get (url m @ ''/api/v1/query_data'')
          (Some [(''process_type'', join '','' process_type),
                 (''parameter'', join '','' parameter),
                 (''cell_type'', join '','' cell_type),
                 (''stimulated'', join '','' stimulated),
                 (''patient_state'', join '','' patient_state),
                 (''product'', join '','' product),
                 (''daughter'', join '','' daughter),
                 (''regulator'', join '','' regulator),
                 (''modifier'', join '','' modifier),
                 (''headers'', join '','' headers),
                 (''wstatSwitch'', wstat_switch)])
          [(''Authorization'', ''Bearer '' @ py_str py (bt_token t))] \<and>
   rsp = server w (sent w) rq \<and>
   crq = Get (url cm @ ''/api/v1/query_data'')
          (Some [(''tissue_types'', join '','' tissue_types),
                 (''diseases'', join '','' diseases),
                 (''species'', join '','' species),
                 (''markers'', join '','' markers),
                 (''headers'', join '','' headers),
                 (''wstatSwitch'', wstat_switch)])
          [(''Authorization'', ''Bearer '' @ py_str py (bt_token t))] \<and>
   token cm = Some t \<and> crsp = server w (sent w) crq \<longrightarrow>
     (status_code rsp = 200 \<and> body rsp = Json (JArr (map JObj records)) \<longrightarrow>
        query_data py process_type parameter cell_type stimulated patient_state product
          daughter regulator modifier headers wstat_switch m w =
          (Inr (Some \<lparr>columns = first_seen (concat (map (map fst) records)), rows = records\<rparr>),
           m, w\<lparr>sent := sent w @ [rq]\<rparr>))
     \<and> (status_code rsp \<noteq> 200 \<longrightarrow>
        query_data py process_type parameter cell_type stimulated patient_state product
          daughter regulator modifier headers wstat_switch m w =
          (Inr None, m, w\<lparr>sent := sent w @ [rq]\<rparr>))
     \<and> (status_code crsp = 200 \<and> body crsp = Json (JArr (map JObj records)) \<longrightarrow>
        cytocon_query_data py species tissue_types diseases markers headers wstat_switch cm w =
          (Inr (Some \<lparr>columns = first_seen (concat (map (map fst) records)), rows = records\<rparr>),
           cm, w\<lparr>sent := sent w @ [crq]\<rparr>))
     \<and> (status_code crsp \<noteq> 200 \<longrightarrow>
        cytocon_query_data py species tissue_types diseases markers headers wstat_switch cm w =
          (Inr None, cm, w\<lparr>sent := sent w @ [crq]\<rparr>))"
proof (intro impI)
  assume h: "token m = Some t \<and> truthy (bt_token t) \<and>
   rq = Get (url m @ ''/api/v1/query_data'')
          (Some [(''process_type'', join '','' process_type),
                 (''parameter'', join '','' parameter),
                 (''cell_type'', join '','' cell_type),
                 (''stimulated'', join '','' stimulated),
                 (''patient_state'', join '','' patient_state),
                 (''product'', join '','' product),
                 (''daughter'', join '','' daughter),
                 (''regulator'', join '','' regulator),
                 (''modifier'', join '','' modifier),
                 (''headers'', join '','' headers),
                 (''wstatSwitch'', wstat_switch)])
          [(''Authorization'', ''Bearer '' @ py_str py (bt_token t))] \<and>
   rsp = server w (sent w) rq \<and>
   crq = Get (url cm @ ''/api/v1/query_data'')
          (Some [(''tissue_types'', join '','' tissue_types),
                 (''diseases'', join '','' diseases),
                 (''species'', join '','' species),
                 (''markers'', join '','' markers),
                 (''headers'', join '','' headers),
                 (''wstatSwitch'', wstat_switch)])
          [(''Authorization'', ''Bearer '' @ py_str py (bt_token t))] \<and>
   token cm = Some t \<and> crsp = server w (sent w) crq"
  have rq: "rq = api_request py m ''/api/v1/query_data''
      (Some (query_params process_type parameter cell_type stimulated patient_state product
          daughter regulator modifier headers wstat_switch)) (bt_token t)"
    using h by (simp add: api_request_def query_params_def)
  have crq: "crq = api_request py cm ''/api/v1/query_data''
      (Some (cytocon_query_params species tissue_types diseases markers headers wstat_switch))
      (bt_token t)"
    using h by (simp add: api_request_def cytocon_query_params_def)
  show "(status_code rsp = 200 \<and> body rsp = Json (JArr (map JObj records)) \<longrightarrow>
        query_data py process_type parameter cell_type stimulated patient_state product
          daughter regulator modifier headers wstat_switch m w =
          (Inr (Some \<lparr>columns = first_seen (concat (map (map fst) records)), rows = records\<rparr>),
           m, w\<lparr>sent := sent w @ [rq]\<rparr>))
     \<and> (status_code rsp \<noteq> 200 \<longrightarrow>
        query_data py process_type parameter cell_type stimulated patient_state product
          daughter regulator modifier headers wstat_switch m w =
          (Inr None, m, w\<lparr>sent := sent w @ [rq]\<rparr>))
     \<and> (status_code crsp = 200 \<and> body crsp = Json (JArr (map JObj records)) \<longrightarrow>
        cytocon_query_data py species tissue_types diseases markers headers wstat_switch cm w =
          (Inr (Some \<lparr>columns = first_seen (concat (map (map fst) records)), rows = records\<rparr>),
           cm, w\<lparr>sent := sent w @ [crq]\<rparr>))
     \<and> (status_code crsp \<noteq> 200 \<longrightarrow>
        cytocon_query_data py species tissue_types diseases markers headers wstat_switch cm w =
          (Inr None, cm, w\<lparr>sent := sent w @ [crq]\<rparr>))"
    unfolding query_data_def cytocon_query_data_def
    using query_call_authenticated [where m = m and t = t and rq = rq and rsp = rsp
        and py = py and w = w and records = records, OF _ _ rq]
      query_call_authenticated [where m = cm and t = t and rq = crq and rsp = crsp
        and py = py and w = w and records = records, OF _ _ crq]
      h
    by blast
qed

theorem query_data_contract_witness:
  "query_data example_py [''Migration''] [''Emax''] [] [] [] [] [] [] [] [''param'', ''param_val'']
     ''false'' (example_manager (Some example_token) (JArr []))
     (example_world credentials_file query_rows) =
     (Inr (Some \<lparr>columns = [''param'', ''param_val''],
                  rows = [[(''param'', JStr ''Emax''), (''param_val'', JStr ''1.2'')]]\<rparr>),
      example_manager (Some example_token) (JArr []),
      (example_world credentials_file query_rows)
        \<lparr>sent := [Get ''https://dev5db.insysbio.com/api/v1/query_data''
           (Some [(''process_type'', ''Migration''), (''parameter'', ''Emax''),
                  (''cell_type'', ''''), (''stimulated'', ''''), (''patient_state'', ''''),
                  (''product'', ''''), (''daughter'', ''''), (''regulator'', ''''),
                  (''modifier'', ''''), (''headers'', ''param,param_val''),
                  (''wstatSwitch'', ''false'')])
           [(''Authorization'', ''Bearer abc'')]]\<rparr>)
   \<and> cytocon_query_data example_py [''Human''] [] [''Asthma'', ''COPD''] [] [''v1''] ''false''
     (example_manager (Some example_token) (JArr []))
     (example_world credentials_file server_error) =
     (Inr None, example_manager (Some example_token) (JArr []),
      (example_world credentials_file server_error)
        \<lparr>sent := [Get ''https://dev5db.insysbio.com/api/v1/query_data''
           (Some [(''tissue_types'', ''''), (''diseases'', ''Asthma,COPD''),
                  (''species'', ''Human''), (''markers'', ''''), (''headers'', ''v1''),
                  (''wstatSwitch'', ''false'')])
           [(''Authorization'', ''Bearer abc'')]]\<rparr>)"
proof -
  let ?m = "example_manager (Some example_token) (JArr [])"
  let ?v = "example_world credentials_file query_rows"
  let ?w = "example_world credentials_file server_error"
  let ?rq = "Get ''https://dev5db.insysbio.com/api/v1/query_data''
           (Some [(''process_type'', ''Migration''), (''parameter'', ''Emax''),
                  (''cell_type'', ''''), (''stimulated'', ''''), (''patient_state'', ''''),
                  (''product'', ''''), (''daughter'', ''''), (''regulator'', ''''),
                  (''modifier'', ''''), (''headers'', ''param,param_val''),
                  (''wstatSwitch'', ''false'')])
           [(''Authorization'', ''Bearer abc'')]"
  let ?crq = "Get ''https://dev5db.insysbio.com/api/v1/query_data''
           (Some [(''tissue_types'', ''''), (''diseases'', ''Asthma,COPD''),
                  (''species'', ''Human''), (''markers'', ''''), (''headers'', ''v1''),
                  (''wstatSwitch'', ''false'')])
           [(''Authorization'', ''Bearer abc'')]"
  have tok: "token ?m = Some example_token \<and> truthy (bt_token example_token)"
    by (simp add: example_manager_def example_token_def)
  have rq: "?rq = Get (url ?m @ ''/api/v1/query_data'')
          (Some [(''process_type'', join '','' [''Migration'']),
                 (''parameter'', join '','' [''Emax'']),
                 (''cell_type'', join '','' []),
                 (''stimulated'', join '','' []),
                 (''patient_state'', join '','' []),
                 (''product'', join '','' []),
                 (''daughter'', join '','' []),
                 (''regulator'', join '','' []),
                 (''modifier'', join '','' []),
                 (''headers'', join '','' [''param'', ''param_val'']),
                 (''wstatSwitch'', ''false'')])
          [(''Authorization'', ''Bearer '' @ py_str example_py (bt_token example_token))]"
    by (simp add: example_manager_def example_token_def)
  have crq: "?crq = Get (url ?m @ ''/api/v1/query_data'')
          (Some [(''tissue_types'', join '','' []),
                 (''diseases'', join '','' [''Asthma'', ''COPD'']),
                 (''species'', join '','' [''Human'']),
                 (''markers'', join '','' []),
                 (''headers'', join '','' [''v1'']),
                 (''wstatSwitch'', ''false'')])
          [(''Authorization'', ''Bearer '' @ py_str example_py (bt_token example_token))]"
    by (simp add: example_manager_def example_token_def)
  have ok: "status_code (server ?v (sent ?v) ?rq) = 200 \<and>
      body (server ?v (sent ?v) ?rq) =
        Json (JArr (map JObj [[(''param'', JStr ''Emax''), (''param_val'', JStr ''1.2'')]]))"
    by (simp add: example_world_def query_rows_def)
  have bad: "status_code (server ?w (sent ?w) ?crq) \<noteq> 200"
    by (simp add: example_world_def server_error_def)
  have 1: "query_data example_py [''Migration''] [''Emax''] [] [] [] [] [] [] []
      [''param'', ''param_val''] ''false'' ?m ?v =
     (Inr (Some \<lparr>columns = first_seen (concat (map (map fst)
                      [[(''param'', JStr ''Emax''), (''param_val'', JStr ''1.2'')]])),
                  rows = [[(''param'', JStr ''Emax''), (''param_val'', JStr ''1.2'')]]\<rparr>),
      ?m, ?v\<lparr>sent := sent ?v @ [?rq]\<rparr>)"
    using query_data_contract [where py = example_py and m = ?m and cm = ?m and w = ?v
        and t = example_token and rq = ?rq and rsp = "server ?v (sent ?v) ?rq"
        and process_type = "[''Migration'']" and parameter = "[''Emax'']"
        and cell_type = "[]" and stimulated = "[]" and patient_state = "[]" and product = "[]"
        and daughter = "[]" and regulator = "[]" and modifier = "[]"
        and headers = "[''param'', ''param_val'']" and wstat_switch = "''false''"
        and records = "[[(''param'', JStr ''Emax''), (''param_val'', JStr ''1.2'')]]"]
      tok rq ok by blast
  have 2: "cytocon_query_data example_py [''Human''] [] [''Asthma'', ''COPD''] [] [''v1'']
      ''false'' ?m ?w = (Inr None, ?m, ?w\<lparr>sent := sent ?w @ [?crq]\<rparr>)"
    using query_data_contract [where py = example_py and m = ?m and cm = ?m and w = ?w
        and t = example_token and crq = ?crq and crsp = "server ?w (sent ?w) ?crq"
        and species = "[''Human'']" and tissue_types = "[]"
        and diseases = "[''Asthma'', ''COPD'']" and markers = "[]"
        and headers = "[''v1'']" and wstat_switch = "''false''"]
      tok crq bad by blast
  show ?thesis
    unfolding 1 2 by (simp add: first_seen_def example_world_def)
qed

subsection \<open>The dictionary cache\<close>

lemma get_dictionary_cached:
  "files w (dictionary_cache_path w dictionary_name) = Some (Json names) \<Longrightarrow>
   get_dictionary py u dictionary_name False m w = (Inr names, m, w)"
  by (simp add: get_dictionary_def)

lemma dictionary_cache_path_update [simp]:
  "dictionary_cache_path (w\<lparr>files := fs\<rparr>) n = dictionary_cache_path w n"
  "dictionary_cache_path (w\<lparr>sent := rs\<rparr>) n = dictionary_cache_path w n"
  by (simp_all add: dictionary_cache_path_def)

lemma get_dictionary_forced:
  assumes "token m = Some t" and "truthy (bt_token t)"
    and "rq = api_request py m u None (bt_token t)" and "rsp = server w (sent w) rq"
  shows "get_dictionary py u dictionary_name True m w =
     (if status_code rsp = 200 then
        (case json_loads (body rsp) of
           Inl e \<Rightarrow> (Inr JNull, m, w\<lparr>sent := sent w @ [rq]\<rparr>)
         | Inr response_data \<Rightarrow>
             (case extract_names response_data of
                Inl e \<Rightarrow> (Inl e, m, w\<lparr>sent := sent w @ [rq]\<rparr>)
              | Inr d \<Rightarrow>
                  (Inr d, m,
                   w\<lparr>sent := sent w @ [rq],
                     files := (files w)(dictionary_cache_path w dictionary_name \<mapsto> Json d)\<rparr>)))
      else (Inr JNull, m, w\<lparr>sent := sent w @ [rq]\<rparr>))"
  using assms
  by (simp add: get_dictionary_def do_api_call_authenticated split: sum.splits)

text \<open>
  C6. When the cache file of a dictionary holds a list of names, also right after the
  names have been written there, \<^verbatim>\<open>get_dictionary\<close> without force returns
  exactly that list and leaves the world as it is, so nothing is sent. With force, and a
  usable token held, it sends the GET request whatever the cache holds; when the answer
  has status 200 and names can be extracted from it, these names are returned and written
  to the cache, and a following call without force returns them from there.
\<close>

theorem dictionary_cache_round_trip:
  "(files w (dictionary_cache_path w dictionary_name) = Some (Json names) \<longrightarrow>
      get_dictionary py u dictionary_name False m w = (Inr names, m, w))
   \<and> get_dictionary py u dictionary_name False m
        (w\<lparr>files := (files w)(dictionary_cache_path w dictionary_name \<mapsto> Json names)\<rparr>) =
        (Inr names, m,
         w\<lparr>files := (files w)(dictionary_cache_path w dictionary_name \<mapsto> Json names)\<rparr>)
   \<and> (token m = Some t \<and> truthy (bt_token t) \<and>
       rq = Get (url m @ u) None [(''Authorization'', ''Bearer '' @ py_str py (bt_token t))] \<and>
       rsp = server w (sent w) rq \<longrightarrow>
         sent (snd (snd (get_dictionary py u dictionary_name True m w))) = sent w @ [rq]
         \<and> (status_code rsp = 200 \<and> body rsp = Json v \<and> extract_names v = Inr d \<longrightarrow>
              get_dictionary py u dictionary_name True m w =
                (Inr d, m,
                 w\<lparr>sent := sent w @ [rq],
                   files := (files w)(dictionary_cache_path w dictionary_name \<mapsto> Json d)\<rparr>)
              \<and> get_dictionary py u dictionary_name False m
                   (w\<lparr>sent := sent w @ [rq],
                      files := (files w)(dictionary_cache_path w dictionary_name \<mapsto> Json d)\<rparr>) =
                  (Inr d, m,
                   w\<lparr>sent := sent w @ [rq],
                     files := (files w)(dictionary_cache_path w dictionary_name \<mapsto> Json d)\<rparr>)))"
proof (intro conjI impI)
  assume "files w (dictionary_cache_path w dictionary_name) = Some (Json names)"
  then show "get_dictionary py u dictionary_name False m w = (Inr names, m, w)"
    by (rule get_dictionary_cached)
next
  show "get_dictionary py u dictionary_name False m
        (w\<lparr>files := (files w)(dictionary_cache_path w dictionary_name \<mapsto> Json names)\<rparr>) =
        (Inr names, m,
         w\<lparr>files := (files w)(dictionary_cache_path w dictionary_name \<mapsto> Json names)\<rparr>)"
    by (rule get_dictionary_cached) simp
next
  assume h: "token m = Some t \<and> truthy (bt_token t) \<and>
       rq = Get (url m @ u) None [(''Authorization'', ''Bearer '' @ py_str py (bt_token t))] \<and>
       rsp = server w (sent w) rq"
  then have rq: "rq = api_request py m u None (bt_token t)"
    by (simp add: api_request_def)
  note f = get_dictionary_forced [where dictionary_name = dictionary_name, OF _ _ rq]
  show "sent (snd (snd (get_dictionary py u dictionary_name True m w))) = sent w @ [rq]"
    using h by (simp add: f split: sum.splits)
  assume ok: "status_code rsp = 200 \<and> body rsp = Json v \<and> extract_names v = Inr d"
  show "get_dictionary py u dictionary_name True m w =
                (Inr d, m,
                 w\<lparr>sent := sent w @ [rq],
                   files := (files w)(dictionary_cache_path w dictionary_name \<mapsto> Json d)\<rparr>)"
    using h ok by (simp add: f)
  show "get_dictionary py u dictionary_name False m
                   (w\<lparr>sent := sent w @ [rq],
                      files := (files w)(dictionary_cache_path w dictionary_name \<mapsto> Json d)\<rparr>) =
                  (Inr d, m,
                   w\<lparr>sent := sent w @ [rq],
                     files := (files w)(dictionary_cache_path w dictionary_name \<mapsto> Json d)\<rparr>)"
    by (rule get_dictionary_cached) simp
qed

theorem dictionary_cache_round_trip_witness:
  "get_dictionary example_py ''/api/v1/process_types'' ''process_types'' False
     (example_manager None (JArr []))
     (example_world
        (credentials_file(''/tmp/process_types.json'' \<mapsto> Json (JArr [JStr ''A'', JStr ''B'', JStr ''C''])))
        server_error) =
     (Inr (JArr [JStr ''A'', JStr ''B'', JStr ''C'']), example_manager None (JArr []),
      example_world
        (credentials_file(''/tmp/process_types.json'' \<mapsto> Json (JArr [JStr ''A'', JStr ''B'', JStr ''C''])))
        server_error)
   \<and> get_dictionary example_py ''/api/v1/process_types'' ''process_types'' True
     (example_manager (Some example_token) (JArr []))
     (example_world
        (credentials_file(''/tmp/process_types.json'' \<mapsto> Json (JArr [JStr ''Z''])))
        names_answer) =
     (Inr (JArr [JStr ''A'', JStr ''B'', JStr ''C'']), example_manager (Some example_token) (JArr []),
      (example_world
        (credentials_file(''/tmp/process_types.json'' \<mapsto> Json (JArr [JStr ''Z''])))
        names_answer)
        \<lparr>sent := [Get ''https://dev5db.insysbio.com/api/v1/process_types'' None
                    [(''Authorization'', ''Bearer abc'')]],
         files := credentials_file(''/tmp/process_types.json'' \<mapsto>
                    Json (JArr [JStr ''A'', JStr ''B'', JStr ''C'']))\<rparr>)"
proof -
  let ?abc = "JArr [JStr ''A'', JStr ''B'', JStr ''C'']"
  let ?m = "example_manager None (JArr [])"
  let ?w = "example_world (credentials_file(''/tmp/process_types.json'' \<mapsto> Json ?abc)) server_error"
  let ?n = "example_manager (Some example_token) (JArr [])"
  let ?v = "example_world (credentials_file(''/tmp/process_types.json'' \<mapsto> Json (JArr [JStr ''Z''])))
              names_answer"
  let ?rq = "Get ''https://dev5db.insysbio.com/api/v1/process_types'' None
                    [(''Authorization'', ''Bearer abc'')]"
  have pw: "dictionary_cache_path ?w ''process_types'' = ''/tmp/process_types.json''"
    and pv: "dictionary_cache_path ?v ''process_types'' = ''/tmp/process_types.json''"
    by (simp_all add: dictionary_cache_path_def example_world_def path_join_def)
  have c: "files ?w (dictionary_cache_path ?w ''process_types'') = Some (Json ?abc)"
    unfolding pw by (simp add: example_world_def)
  have h: "token ?n = Some example_token \<and> truthy (bt_token example_token) \<and>
       ?rq = Get (url ?n @ ''/api/v1/process_types'') None
               [(''Authorization'', ''Bearer '' @ py_str example_py (bt_token example_token))] \<and>
       names_answer = server ?v (sent ?v) ?rq"
    by (simp add: example_manager_def example_token_def example_world_def)
  have ok: "status_code names_answer = 200 \<and>
      body names_answer = Json (JArr [JObj [(''Name'', JStr ''A'')], JObj [(''Name'', JStr ''B'')],
                         JObj [(''Name'', JStr ''C'')]]) \<and>
      extract_names (JArr [JObj [(''Name'', JStr ''A'')], JObj [(''Name'', JStr ''B'')],
                         JObj [(''Name'', JStr ''C'')]]) = Inr ?abc"
    by (simp add: names_answer_def)
  have 1: "get_dictionary example_py ''/api/v1/process_types'' ''process_types'' False ?m ?w =
      (Inr ?abc, ?m, ?w)"
    using dictionary_cache_round_trip [where w = ?w and dictionary_name = "''process_types''"
        and names = ?abc and py = example_py and m = ?m and u = "''/api/v1/process_types''"] c
    by blast
  have 2: "get_dictionary example_py ''/api/v1/process_types'' ''process_types'' True ?n ?v =
      (Inr ?abc, ?n,
       ?v\<lparr>sent := sent ?v @ [?rq],
          files := (files ?v)(dictionary_cache_path ?v ''process_types'' \<mapsto> Json ?abc)\<rparr>)"
    using dictionary_cache_round_trip [where w = ?v and dictionary_name = "''process_types''"
        and py = example_py and m = ?n and u = "''/api/v1/process_types''" and t = example_token
        and rq = ?rq and rsp = names_answer and d = ?abc
        and v = "JArr [JObj [(''Name'', JStr ''A'')], JObj [(''Name'', JStr ''B'')],
                         JObj [(''Name'', JStr ''C'')]]"] h ok
    by blast
  show ?thesis
    unfolding 1 2 pv by (simp add: example_world_def)
qed

subsection \<open>Resetting the token\<close>

lemma get_auth_token_path_files [simp]:
  "get_auth_token_path m (w\<lparr>files := fs\<rparr>) = get_auth_token_path m w"
  by (simp add: get_auth_token_path_def)

lemma reset_auth_token_files:
  "reset_auth_token m w = w\<lparr>files := (files w)(get_auth_token_path m w := None)\<rparr>"
proof (cases "files w (get_auth_token_path m w)")
  case None
  then have "(files w)(get_auth_token_path m w := None) = files w"
    by (simp add: fun_upd_idem)
  with None show ?thesis by (simp add: reset_auth_token_def)
next
  case (Some f)
  then show ?thesis by (simp add: reset_auth_token_def)
qed

lemma reset_auth_token_path [simp]:
  "get_auth_token_path m (reset_auth_token m w) = get_auth_token_path m w"
  by (simp add: reset_auth_token_files)

text \<open>
  C7. \<^verbatim>\<open>reset_auth_token\<close> removes the token cache file and nothing else,
  sends nothing, cannot fail, and changes nothing when the file is absent, so resetting
  twice is resetting once. After a reset, whatever the cache held before,
  \<^verbatim>\<open>request_auth_token\<close> sends a token request, provided the credentials can
  still be read.
\<close>

theorem reset_then_request:
  "files (reset_auth_token m w) = (files w)(get_auth_token_path m w := None)
   \<and> files (reset_auth_token m w) (get_auth_token_path m w) = None
   \<and> sent (reset_auth_token m w) = sent w
   \<and> reset_auth_token m (reset_auth_token m w) = reset_auth_token m w
   \<and> (files w (get_auth_token_path m w) = None \<longrightarrow> reset_auth_token m w = w)
   \<and> (read_credentials py m (reset_auth_token m w) = Inr (u, p) \<longrightarrow>
        sent (snd (snd (request_auth_token py m (reset_auth_token m w)))) =
          sent w @ [token_request m u p])"
proof (intro conjI impI)
  show "files (reset_auth_token m w) = (files w)(get_auth_token_path m w := None)"
    by (simp add: reset_auth_token_files)
  show gone: "files (reset_auth_token m w) (get_auth_token_path m w) = None"
    by (simp add: reset_auth_token_files)
  show "sent (reset_auth_token m w) = sent w"
    by (simp add: reset_auth_token_files)
  show "reset_auth_token m (reset_auth_token m w) = reset_auth_token m w"
    using gone by (simp add: reset_auth_token_def [of m "reset_auth_token m w"])
  show "reset_auth_token m w = w" if "files w (get_auth_token_path m w) = None"
    using that by (simp add: reset_auth_token_def)
  assume c: "read_credentials py m (reset_auth_token m w) = Inr (u, p)"
  have "read_token_cache py m (reset_auth_token m w) = (Inr None, reset_auth_token m w)"
    using gone by (intro read_token_cache_absent) simp
  from request_auth_token_miss [OF this c]
  show "sent (snd (snd (request_auth_token py m (reset_auth_token m w)))) =
          sent w @ [token_request m u p]"
    by (simp add: accept_token_response_sent reset_auth_token_files)
qed

theorem reset_then_request_witness:
  "files (reset_auth_token (example_manager None (JArr []))
       (example_world (example_cache ''0001-01-01T01:00:10'') token_granted))
     ''/tmp/token_cache_unknown.json'' = None
   \<and> sent (snd (snd (request_auth_token example_py (example_manager None (JArr []))
       (reset_auth_token (example_manager None (JArr []))
          (example_world (example_cache ''0001-01-01T01:00:10'') token_granted))))) =
     [token_request (example_manager None (JArr [])) ''user'' ''secret'']
   \<and> reset_auth_token (example_manager None (JArr []))
       (example_world credentials_file token_granted) =
     example_world credentials_file token_granted"
proof -
  let ?m = "example_manager None (JArr [])"
  let ?w = "example_world (example_cache ''0001-01-01T01:00:10'') token_granted"
  let ?v = "example_world credentials_file token_granted"
  have r: "reset_auth_token ?m ?w = ?v"
    by (simp add: reset_auth_token_def example_token_path)
       (simp add: example_world_def example_cache_def fun_upd_idem example_no_token_file)
  have c: "read_credentials example_py ?m (reset_auth_token ?m ?w) = Inr (''user'', ''secret'')"
    unfolding r by (simp add: example_credentials example_credentials_file)
  have a: "files ?v (get_auth_token_path ?m ?v) = None"
    by (simp add: example_token_path) (simp add: example_world_def example_no_token_file)
  note t = reset_then_request [where m = ?m and py = example_py and u = "''user''"
      and p = "''secret''"]
  have 1: "files (reset_auth_token ?m ?w) (get_auth_token_path ?m ?w) = None"
    using t [where w = ?w] by blast
  have 2: "sent (snd (snd (request_auth_token example_py ?m (reset_auth_token ?m ?w)))) =
      sent ?w @ [token_request ?m ''user'' ''secret'']"
    using t [where w = ?w] c by blast
  have 3: "reset_auth_token ?m ?v = ?v"
    using t [where w = ?v] a by blast
  show ?thesis
    using 1 2 3 by (simp add: example_token_path) (simp add: example_world_def)
qed

subsection \<open>A refused token request\<close>

lemma accept_token_response_files:
  assumes "accept_token_response py rsp m w = (r, m', w')"
  shows "files w' = files w \<or>
     status_code rsp = 200 \<and>
     (\<exists>t e. r = Inr t \<and> files w' = (files w)(get_auth_token_path m w \<mapsto> token_file py t e))"
proof (cases "status_code rsp = 200")
  case False
  with assms show ?thesis by (auto simp: accept_token_response_def Let_def)
next
  case True
  with assms show ?thesis
    by (auto simp: accept_token_response_def Let_def datetime_now_def
        split: sum.splits bool.splits)
qed

lemma request_auth_token_files:
  assumes "request_auth_token py m w = (r, m', w')"
  shows "files w' = files w \<or>
     (\<exists>u p. read_credentials py m w = Inr (u, p) \<and>
        status_code (server w (sent w) (token_request m u p)) = 200 \<and>
        (\<exists>t e. r = Inr t \<and> files w' = (files w)(get_auth_token_path m w \<mapsto> token_file py t e)))"
proof -
  obtain c w1 where c: "read_token_cache py m w = (c, w1)"
    by (cases "read_token_cache py m w")
  have w1: "w1 = w \<or> w1 = w\<lparr>reads := Suc (reads w)\<rparr>"
    using read_token_cache_world [OF c] .
  then have same: "files w1 = files w" "sent w1 = sent w" "server w1 = server w"
    "get_auth_token_path m w1 = get_auth_token_path m w"
    "read_credentials py m w1 = read_credentials py m w"
    by auto
  show ?thesis
  proof (cases c)
    case (Inl e)
    with c assms same show ?thesis by (simp add: request_auth_token_def)
  next
    case (Inr o1)
    show ?thesis
    proof (cases o1)
      case (Some t)
      with Inr c assms same show ?thesis by (auto simp: request_auth_token_def)
    next
      case None
      show ?thesis
      proof (cases "read_credentials py m w")
        case (Inl e)
        with None Inr c assms same show ?thesis by (simp add: request_auth_token_def)
      next
        case cr: (Inr up)
        obtain u p where up: "up = (u, p)" by (cases up)
        have "accept_token_response py (server w1 (sent w1) (token_request m u p)) m
                (w1\<lparr>sent := sent w1 @ [token_request m u p]\<rparr>) = (r, m', w')"
          using None Inr c assms cr up same(5) by (simp add: request_auth_token_def send_def)
        from accept_token_response_files [OF this] show ?thesis
          using same cr up by auto
      qed
    qed
  qed
qed

text \<open>
  C9. When the token request is answered with a status other than 200, the file system
  after the call is the file system before it: the marker is not written. In every run
  of \<^verbatim>\<open>request_auth_token\<close>, if the file system has changed then a token
  request was answered with status 200, a token was returned, and the only change is
  the cache file, which holds that token.
\<close>

theorem refused_token_not_cached:
  "((files w (get_auth_token_path m w) = None \<or>
     files w (get_auth_token_path m w) = Some (Json c) \<and>
     py_getitem c ''expires_in'' = Inr (JStr s) \<and> fromisoformat py s = Inr e \<and>
     e \<le> clock w (reads w)) \<and>
    read_credentials py m w = Inr (u, p) \<and>
    status_code (server w (sent w) (token_request m u p)) \<noteq> 200 \<longrightarrow>
      sent (snd (snd (request_auth_token py m w))) = sent w @ [token_request m u p] \<and>
      files (snd (snd (request_auth_token py m w))) = files w)
   \<and> (request_auth_token py m w = (r, m', w') \<and> files w' \<noteq> files w \<longrightarrow>
        (\<exists>u p. read_credentials py m w = Inr (u, p) \<and>
           status_code (server w (sent w) (token_request m u p)) = 200 \<and>
           (\<exists>t e. r = Inr t \<and>
              files w' = (files w)(get_auth_token_path m w \<mapsto> token_file py t e))))"
proof (intro conjI impI)
  assume h: "(files w (get_auth_token_path m w) = None \<or>
     files w (get_auth_token_path m w) = Some (Json c) \<and>
     py_getitem c ''expires_in'' = Inr (JStr s) \<and> fromisoformat py s = Inr e \<and>
     e \<le> clock w (reads w)) \<and>
    read_credentials py m w = Inr (u, p) \<and>
    status_code (server w (sent w) (token_request m u p)) \<noteq> 200"
  then obtain k where miss: "read_token_cache py m w = (Inr None, w\<lparr>reads := k\<rparr>)"
    using read_token_cache_absent [of w m py] read_token_cache_expired [of w m c s py e]
    by (metis (no_types) world.surjective world.update_convs(4))
  have run: "request_auth_token py m w =
     accept_token_response py (server w (sent w) (token_request m u p)) m
       (w\<lparr>reads := k, sent := sent w @ [token_request m u p]\<rparr>)"
    using request_auth_token_miss [OF miss, of u p] h by simp
  show "sent (snd (snd (request_auth_token py m w))) = sent w @ [token_request m u p]"
    by (simp add: run accept_token_response_sent)
  show "files (snd (snd (request_auth_token py m w))) = files w"
    using h by (simp add: run accept_token_response_failed)
next
  assume "request_auth_token py m w = (r, m', w') \<and> files w' \<noteq> files w"
  then show "\<exists>u p. read_credentials py m w = Inr (u, p) \<and>
           status_code (server w (sent w) (token_request m u p)) = 200 \<and>
           (\<exists>t e. r = Inr t \<and>
              files w' = (files w)(get_auth_token_path m w \<mapsto> token_file py t e))"
    using request_auth_token_files [of py m w r m' w'] by blast
qed

lemma example_granted_run:
  "request_auth_token example_py (example_manager None (JArr []))
     (example_world credentials_file token_granted) =
   (Inr \<lparr>bt_token = JStr ''abc'', bt_expires_in = Some 3610000000,
         bt_response = Some token_granted\<rparr>,
    example_manager (Some \<lparr>bt_token = JStr ''abc'', bt_expires_in = Some 3610000000,
         bt_response = Some token_granted\<rparr>) (JArr []),
    (example_world credentials_file token_granted)
      \<lparr>reads := 1,
       sent := [token_request (example_manager None (JArr [])) ''user'' ''secret''],
       files := credentials_file(''/tmp/token_cache_unknown.json'' \<mapsto>
         Json (JObj [(''token'', JStr ''abc''),
                     (''expires_in'', JStr ''0001-01-01T01:00:10'')]))\<rparr>)"
proof -
  let ?m = "example_manager None (JArr [])"
  let ?w = "example_world credentials_file token_granted"
  have c: "read_token_cache example_py ?m ?w = (Inr None, ?w)"
    by (rule read_token_cache_absent)
       (simp add: example_token_path, simp add: example_world_def example_no_token_file)
  have r: "request_auth_token example_py ?m ?w =
     accept_token_response example_py token_granted ?m
       (?w\<lparr>sent := [token_request ?m ''user'' ''secret'']\<rparr>)"
    using request_auth_token_miss [OF c, of "''user''" "''secret''"]
    by (simp add: example_credentials example_credentials_file)
       (simp add: example_world_def)
  show ?thesis
    unfolding r
    by (subst accept_token_response_ok [where tok = "JStr ''abc''" and n = 3600
          and life = "JNum 3600"
          and rd = "JObj [(''access_token'', JStr ''abc''), (''expires_in'', JNum 3600)]"])
       (simp_all add: token_granted_def example_world_def datetime_max_def
          get_auth_token_path_def path_join_def example_manager_def example_py_def)
qed

theorem refused_token_not_cached_witness:
  "files (snd (snd (request_auth_token example_py (example_manager None (JArr []))
       (example_world (example_cache ''0001-01-01T00:00:05'') server_error)))) =
     example_cache ''0001-01-01T00:00:05''
   \<and> (\<exists>u p. read_credentials example_py (example_manager None (JArr []))
          (example_world credentials_file token_granted) = Inr (u, p) \<and>
        status_code (server (example_world credentials_file token_granted)
          (sent (example_world credentials_file token_granted))
          (token_request (example_manager None (JArr [])) u p)) = 200)"
proof -
  let ?m = "example_manager None (JArr [])"
  let ?w = "example_world (example_cache ''0001-01-01T00:00:05'') server_error"
  let ?v = "example_world credentials_file token_granted"
  have h: "(files ?w (get_auth_token_path ?m ?w) = None \<or>
     files ?w (get_auth_token_path ?m ?w) =
       Some (Json (JObj [(''token'', JStr ''old''), (''expires_in'', JStr ''0001-01-01T00:00:05'')])) \<and>
     py_getitem (JObj [(''token'', JStr ''old''), (''expires_in'', JStr ''0001-01-01T00:00:05'')])
       ''expires_in'' = Inr (JStr ''0001-01-01T00:00:05'') \<and>
     fromisoformat example_py ''0001-01-01T00:00:05'' = Inr 5000000 \<and>
     5000000 \<le> clock ?w (reads ?w)) \<and>
    read_credentials example_py ?m ?w = Inr (''user'', ''secret'') \<and>
    status_code (server ?w (sent ?w) (token_request ?m ''user'' ''secret'')) \<noteq> 200"
    by (simp add: example_token_path example_credentials example_cache_credentials)
       (simp add: example_world_def example_cache_def example_py_def server_error_def)
  have 1: "files (snd (snd (request_auth_token example_py ?m ?w))) = files ?w"
    using refused_token_not_cached [where py = example_py and m = ?m and w = ?w
        and c = "JObj [(''token'', JStr ''old''), (''expires_in'', JStr ''0001-01-01T00:00:05'')]"
        and s = "''0001-01-01T00:00:05''" and e = 5000000 and u = "''user''" and p = "''secret''"]
      h by blast
  have "files (snd (snd (request_auth_token example_py ?m ?v))) ''/tmp/token_cache_unknown.json''
      \<noteq> files ?v ''/tmp/token_cache_unknown.json''"
    unfolding example_granted_run by (simp add: example_world_def example_no_token_file)
  then have "files (snd (snd (request_auth_token example_py ?m ?v))) \<noteq> files ?v"
    by metis
  then have ch: "request_auth_token example_py ?m ?v =
        (fst (request_auth_token example_py ?m ?v),
         fst (snd (request_auth_token example_py ?m ?v)),
         snd (snd (request_auth_token example_py ?m ?v))) \<and>
      files (snd (snd (request_auth_token example_py ?m ?v))) \<noteq> files ?v"
    by simp
  have "\<exists>u p. read_credentials example_py ?m ?v = Inr (u, p) \<and>
        status_code (server ?v (sent ?v) (token_request ?m u p)) = 200 \<and>
        (\<exists>t e. fst (request_auth_token example_py ?m ?v) = Inr t \<and>
           files (snd (snd (request_auth_token example_py ?m ?v))) =
             (files ?v)(get_auth_token_path ?m ?v \<mapsto> token_file example_py t e))"
    by (rule refused_token_not_cached [where py = example_py and m = ?m and w = ?v,
          THEN conjunct2, THEN mp, OF ch])
  then have 2: "\<exists>u p. read_credentials example_py ?m ?v = Inr (u, p) \<and>
        status_code (server ?v (sent ?v) (token_request ?m u p)) = 200"
    by blast
  show ?thesis
    using 1 2 by (simp add: example_world_def)
qed

subsection \<open>Fetching a dictionary\<close>

lemma do_api_call_content:
  "do_api_call py u params m w = (Inr r, m1, w1) \<Longrightarrow>
   content r = (if status_code (response r) = 200 then body (response r) else Text [])"
  by (auto simp: do_api_call_def send_def split: prod.splits sum.splits option.splits if_splits)

lemma get_dictionary_fetch:
  assumes "force \<or> files w (dictionary_cache_path w dictionary_name) = None"
    and "do_api_call py u None m w = (Inr r, m1, w1)"
  shows "get_dictionary py u dictionary_name force m w =
     (if status_code (response r) = 200 then
        (case json_loads (body (response r)) of
           Inl e \<Rightarrow> (Inr JNull, m1, w1)
         | Inr response_data \<Rightarrow>
             (case extract_names response_data of
                Inl e \<Rightarrow> (Inl e, m1, w1)
              | Inr d \<Rightarrow>
                  (Inr d, m1,
                   w1\<lparr>files := (files w1)(dictionary_cache_path w dictionary_name \<mapsto> Json d)\<rparr>)))
      else (Inr JNull, m1, w1))"
proof -
  have "(if force then None else files w (dictionary_cache_path w dictionary_name)) = None"
    using assms(1) by auto
  then show ?thesis
    using assms(2) do_api_call_content [OF assms(2)]
    by (simp add: get_dictionary_def split: sum.splits)
qed

lemma get_names_objects:
  "get_names (map JObj records) =
     Inr (map (\<lambda>kvs. case map_of kvs ''Name'' of None \<Rightarrow> JNull | Some v \<Rightarrow> v) records)"
  by (induction records) simp_all

lemma extract_names_scalar:
  "\<forall>xs. v \<noteq> JArr xs \<Longrightarrow> \<forall>kvs. v \<noteq> JObj kvs \<Longrightarrow>
   extract_names v = Inl (ValueError ''Unexpected JSON structure in API response.'')"
  by (cases v) simp_all

text \<open>
  C8, as amended. Let \<^verbatim>\<open>get_dictionary\<close> fetch (force, or no cache file) and
  let the API call return. On a status other than 200, and on status 200 with a payload
  that does not decode as JSON, the result is \<^verbatim>\<open>None\<close>. On status 200 with a
  JSON value that is neither a list nor an object (null, a boolean, a number, a string)
  the parse error is raised. A single object is accepted whether or not it has a
  \<^verbatim>\<open>Name\<close> field: the value of the field, or the empty list when there is
  none, is returned and cached. A list of objects is accepted likewise: the list of the
  items' \<^verbatim>\<open>Name\<close> values, \<^verbatim>\<open>None\<close> for an item without the field,
  is returned and cached.
\<close>

theorem get_dictionary_errors:
  "(force \<or> files w (dictionary_cache_path w dictionary_name) = None) \<and>
   do_api_call py u None m w = (Inr r, m1, w1) \<longrightarrow>
     (status_code (response r) \<noteq> 200 \<longrightarrow>
          get_dictionary py u dictionary_name force m w = (Inr JNull, m1, w1))
     \<and> (status_code (response r) = 200 \<and> body (response r) = Text s \<longrightarrow>
          get_dictionary py u dictionary_name force m w = (Inr JNull, m1, w1))
     \<and> (status_code (response r) = 200 \<and> body (response r) = Json v \<and>
        (\<forall>xs. v \<noteq> JArr xs) \<and> (\<forall>kvs. v \<noteq> JObj kvs) \<longrightarrow>
          get_dictionary py u dictionary_name force m w =
            (Inl (ValueError ''Unexpected JSON structure in API response.''), m1, w1))
     \<and> (status_code (response r) = 200 \<and> body (response r) = Json (JObj kvs) \<longrightarrow>
          get_dictionary py u dictionary_name force m w =
            (Inr (case map_of kvs ''Name'' of None \<Rightarrow> JArr [] | Some x \<Rightarrow> x), m1,
             w1\<lparr>files := (files w1)(dictionary_cache_path w dictionary_name \<mapsto>
                Json (case map_of kvs ''Name'' of None \<Rightarrow> JArr [] | Some x \<Rightarrow> x))\<rparr>))
     \<and> (status_code (response r) = 200 \<and> body (response r) = Json (JArr (map JObj records)) \<longrightarrow>
          get_dictionary py u dictionary_name force m w =
            (Inr (JArr (map (\<lambda>kvs. case map_of kvs ''Name'' of None \<Rightarrow> JNull | Some x \<Rightarrow> x) records)), m1,
             w1\<lparr>files := (files w1)(dictionary_cache_path w dictionary_name \<mapsto>
                Json (JArr (map (\<lambda>kvs. case map_of kvs ''Name'' of None \<Rightarrow> JNull | Some x \<Rightarrow> x) records)))\<rparr>))"
proof (intro impI)
  assume h: "(force \<or> files w (dictionary_cache_path w dictionary_name) = None) \<and>
   do_api_call py u None m w = (Inr r, m1, w1)"
  then have f: "get_dictionary py u dictionary_name force m w =
     (if status_code (response r) = 200 then
        (case json_loads (body (response r)) of
           Inl e \<Rightarrow> (Inr JNull, m1, w1)
         | Inr response_data \<Rightarrow>
             (case extract_names response_data of
                Inl e \<Rightarrow> (Inl e, m1, w1)
              | Inr d \<Rightarrow>
                  (Inr d, m1,
                   w1\<lparr>files := (files w1)(dictionary_cache_path w dictionary_name \<mapsto> Json d)\<rparr>)))
      else (Inr JNull, m1, w1))"
    by (intro get_dictionary_fetch) auto
  show "(status_code (response r) \<noteq> 200 \<longrightarrow>
          get_dictionary py u dictionary_name force m w = (Inr JNull, m1, w1))
     \<and> (status_code (response r) = 200 \<and> body (response r) = Text s \<longrightarrow>
          get_dictionary py u dictionary_name force m w = (Inr JNull, m1, w1))
     \<and> (status_code (response r) = 200 \<and> body (response r) = Json v \<and>
        (\<forall>xs. v \<noteq> JArr xs) \<and> (\<forall>kvs. v \<noteq> JObj kvs) \<longrightarrow>
          get_dictionary py u dictionary_name force m w =
            (Inl (ValueError ''Unexpected JSON structure in API response.''), m1, w1))
     \<and> (status_code (response r) = 200 \<and> body (response r) = Json (JObj kvs) \<longrightarrow>
          get_dictionary py u dictionary_name force m w =
            (Inr (case map_of kvs ''Name'' of None \<Rightarrow> JArr [] | Some x \<Rightarrow> x), m1,
             w1\<lparr>files := (files w1)(dictionary_cache_path w dictionary_name \<mapsto>
                Json (case map_of kvs ''Name'' of None \<Rightarrow> JArr [] | Some x \<Rightarrow> x))\<rparr>))
     \<and> (status_code (response r) = 200 \<and> body (response r) = Json (JArr (map JObj records)) \<longrightarrow>
          get_dictionary py u dictionary_name force m w =
            (Inr (JArr (map (\<lambda>kvs. case map_of kvs ''Name'' of None \<Rightarrow> JNull | Some x \<Rightarrow> x) records)), m1,
             w1\<lparr>files := (files w1)(dictionary_cache_path w dictionary_name \<mapsto>
                Json (JArr (map (\<lambda>kvs. case map_of kvs ''Name'' of None \<Rightarrow> JNull | Some x \<Rightarrow> x) records)))\<rparr>))"
    unfolding f
    by (auto simp: extract_names_scalar get_names_objects)
qed

text \<open>
  C10. On status 200, a single object without a \<^verbatim>\<open>Name\<close> field yields the
  empty list, which is also written to the cache; a list of objects yields, item by item,
  the value of \<^verbatim>\<open>Name\<close>, or \<^verbatim>\<open>None\<close> for an item without the
  field, and this list is written to the cache.
\<close>

theorem names_without_name_field:
  "(force \<or> files w (dictionary_cache_path w dictionary_name) = None) \<and>
   do_api_call py u None m w = (Inr r, m1, w1) \<and> status_code (response r) = 200 \<longrightarrow>
     (body (response r) = Json (JObj kvs) \<and> ''Name'' \<notin> fst ` set kvs \<longrightarrow>
        get_dictionary py u dictionary_name force m w =
          (Inr (JArr []), m1,
           w1\<lparr>files := (files w1)(dictionary_cache_path w dictionary_name \<mapsto> Json (JArr []))\<rparr>))
     \<and> (body (response r) = Json (JArr (map JObj records)) \<longrightarrow>
        get_dictionary py u dictionary_name force m w =
          (Inr (JArr (map (\<lambda>kvs. case map_of kvs ''Name'' of None \<Rightarrow> JNull | Some v \<Rightarrow> v)
                        records)), m1,
           w1\<lparr>files := (files w1)(dictionary_cache_path w dictionary_name \<mapsto>
              Json (JArr (map (\<lambda>kvs. case map_of kvs ''Name'' of None \<Rightarrow> JNull | Some v \<Rightarrow> v)
                            records)))\<rparr>))"
proof (intro impI)
  assume h: "(force \<or> files w (dictionary_cache_path w dictionary_name) = None) \<and>
   do_api_call py u None m w = (Inr r, m1, w1) \<and> status_code (response r) = 200"
  then have f: "get_dictionary py u dictionary_name force m w =
        (case json_loads (body (response r)) of
           Inl e \<Rightarrow> (Inr JNull, m1, w1)
         | Inr response_data \<Rightarrow>
             (case extract_names response_data of
                Inl e \<Rightarrow> (Inl e, m1, w1)
              | Inr d \<Rightarrow>
                  (Inr d, m1,
                   w1\<lparr>files := (files w1)(dictionary_cache_path w dictionary_name \<mapsto> Json d)\<rparr>)))"
    using get_dictionary_fetch [of force w dictionary_name py u m r m1 w1] by auto
  have n: "map_of kvs ''Name'' = None" if "''Name'' \<notin> fst ` set kvs"
    using that by (simp add: map_of_eq_None_iff)
  show "(body (response r) = Json (JObj kvs) \<and> ''Name'' \<notin> fst ` set kvs \<longrightarrow>
        get_dictionary py u dictionary_name force m w =
          (Inr (JArr []), m1,
           w1\<lparr>files := (files w1)(dictionary_cache_path w dictionary_name \<mapsto> Json (JArr []))\<rparr>))
     \<and> (body (response r) = Json (JArr (map JObj records)) \<longrightarrow>
        get_dictionary py u dictionary_name force m w =
          (Inr (JArr (map (\<lambda>kvs. case map_of kvs ''Name'' of None \<Rightarrow> JNull | Some v \<Rightarrow> v)
                        records)), m1,
           w1\<lparr>files := (files w1)(dictionary_cache_path w dictionary_name \<mapsto>
              Json (JArr (map (\<lambda>kvs. case map_of kvs ''Name'' of None \<Rightarrow> JNull | Some v \<Rightarrow> v)
                            records)))\<rparr>))"
    unfolding f using n by (simp add: get_names_objects)
qed

lemma example_api_call:
  "do_api_call example_py ''/api/v1/process_types'' None
     (example_manager (Some example_token) (JArr [])) (example_world fs rsp) =
   (Inr \<lparr>content = (if status_code rsp = 200 then body rsp else Text []), response = rsp\<rparr>,
    example_manager (Some example_token) (JArr []),
    (example_world fs rsp)
      \<lparr>sent := [Get ''https://dev5db.insysbio.com/api/v1/process_types'' None
                  [(''Authorization'', ''Bearer abc'')]]\<rparr>)"
  by (subst do_api_call_authenticated [where t = example_token])
     (simp_all add: example_manager_def example_token_def example_world_def api_request_def)

lemma example_dictionary_path:
  "dictionary_cache_path (example_world fs rsp) ''process_types'' = ''/tmp/process_types.json''"
  by (simp add: dictionary_cache_path_def example_world_def path_join_def)

text \<open>
  The claim C8 as stated fails on a single object that exposes no \<^verbatim>\<open>Name\<close>
  field: the answer has status 200, and the call returns the empty list and caches it.
\<close>

theorem nameless_object_counterexample:
  "status_code nameless_answer = 200
   \<and> body nameless_answer = Json (JObj [(''Id'', JNum 1)])
   \<and> server (example_world credentials_file nameless_answer) []
       (Get ''https://dev5db.insysbio.com/api/v1/process_types'' None
          [(''Authorization'', ''Bearer abc'')]) = nameless_answer
   \<and> get_dictionary example_py ''/api/v1/process_types'' ''process_types'' False
       (example_manager (Some example_token) (JArr []))
       (example_world credentials_file nameless_answer) =
     (Inr (JArr []), example_manager (Some example_token) (JArr []),
      (example_world credentials_file nameless_answer)
        \<lparr>sent := [Get ''https://dev5db.insysbio.com/api/v1/process_types'' None
                    [(''Authorization'', ''Bearer abc'')]],
         files := credentials_file(''/tmp/process_types.json'' \<mapsto> Json (JArr []))\<rparr>)"
proof -
  let ?w = "example_world credentials_file nameless_answer"
  have f: "False \<or> files ?w (dictionary_cache_path ?w ''process_types'') = None"
    by (simp add: example_dictionary_path) (simp add: example_world_def credentials_file_def)
  have "get_dictionary example_py ''/api/v1/process_types'' ''process_types'' False
       (example_manager (Some example_token) (JArr [])) ?w =
     (Inr (JArr []), example_manager (Some example_token) (JArr []),
      ?w\<lparr>sent := [Get ''https://dev5db.insysbio.com/api/v1/process_types'' None
                    [(''Authorization'', ''Bearer abc'')]],
         files := credentials_file(''/tmp/process_types.json'' \<mapsto> Json (JArr []))\<rparr>)"
    unfolding get_dictionary_fetch [OF f example_api_call]
    by (simp add: nameless_answer_def example_dictionary_path) (simp add: example_world_def)
  then show ?thesis
    by (simp add: nameless_answer_def) (simp add: example_world_def)
qed

theorem get_dictionary_errors_witness:
  "get_dictionary example_py ''/api/v1/process_types'' ''process_types'' False
       (example_manager (Some example_token) (JArr []))
       (example_world credentials_file server_error) =
     (Inr JNull, example_manager (Some example_token) (JArr []),
      (example_world credentials_file server_error)
        \<lparr>sent := [Get ''https://dev5db.insysbio.com/api/v1/process_types'' None
                    [(''Authorization'', ''Bearer abc'')]]\<rparr>)
   \<and> get_dictionary example_py ''/api/v1/process_types'' ''process_types'' True
       (example_manager (Some example_token) (JArr []))
       (example_world credentials_file number_answer) =
     (Inl (ValueError ''Unexpected JSON structure in API response.''),
      example_manager (Some example_token) (JArr []),
      (example_world credentials_file number_answer)
        \<lparr>sent := [Get ''https://dev5db.insysbio.com/api/v1/process_types'' None
                    [(''Authorization'', ''Bearer abc'')]]\<rparr>)
   \<and> get_dictionary example_py ''/api/v1/process_types'' ''process_types'' True
       (example_manager (Some example_token) (JArr []))
       (example_world credentials_file single_name_answer) =
     (Inr (JStr ''Migration''), example_manager (Some example_token) (JArr []),
      (example_world credentials_file single_name_answer)
        \<lparr>sent := [Get ''https://dev5db.insysbio.com/api/v1/process_types'' None
                    [(''Authorization'', ''Bearer abc'')]],
         files := credentials_file(''/tmp/process_types.json'' \<mapsto> Json (JStr ''Migration''))\<rparr>)
   \<and> get_dictionary example_py ''/api/v1/process_types'' ''process_types'' True
       (example_manager (Some example_token) (JArr []))
       (example_world credentials_file names_answer) =
     (Inr (JArr [JStr ''A'', JStr ''B'', JStr ''C'']),
      example_manager (Some example_token) (JArr []),
      (example_world credentials_file names_answer)
        \<lparr>sent := [Get ''https://dev5db.insysbio.com/api/v1/process_types'' None
                    [(''Authorization'', ''Bearer abc'')]],
         files := credentials_file(''/tmp/process_types.json'' \<mapsto>
                    Json (JArr [JStr ''A'', JStr ''B'', JStr ''C'']))\<rparr>)"
proof -
  let ?x = "example_world credentials_file single_name_answer"
  let ?y = "example_world credentials_file names_answer"
  let ?m = "example_manager (Some example_token) (JArr [])"
  let ?w = "example_world credentials_file server_error"
  let ?v = "example_world credentials_file number_answer"
  let ?rq = "Get ''https://dev5db.insysbio.com/api/v1/process_types'' None
                    [(''Authorization'', ''Bearer abc'')]"
  have hw: "(False \<or> files ?w (dictionary_cache_path ?w ''process_types'') = None) \<and>
     do_api_call example_py ''/api/v1/process_types'' None ?m ?w =
       (Inr \<lparr>content = Text [], response = server_error\<rparr>, ?m, ?w\<lparr>sent := [?rq]\<rparr>)"
    by (simp add: example_dictionary_path example_api_call)
       (simp add: example_world_def credentials_file_def server_error_def)
  have hv: "(True \<or> files ?v (dictionary_cache_path ?v ''process_types'') = None) \<and>
     do_api_call example_py ''/api/v1/process_types'' None ?m ?v =
       (Inr \<lparr>content = Json (JNum 5), response = number_answer\<rparr>, ?m, ?v\<lparr>sent := [?rq]\<rparr>)"
    by (simp add: example_api_call) (simp add: number_answer_def)
  have 1: "get_dictionary example_py ''/api/v1/process_types'' ''process_types'' False ?m ?w =
      (Inr JNull, ?m, ?w\<lparr>sent := [?rq]\<rparr>)"
    using get_dictionary_errors [where force = False and w = ?w
        and dictionary_name = "''process_types''" and py = example_py
        and u = "''/api/v1/process_types''" and m = ?m
        and r = "\<lparr>content = Text [], response = server_error\<rparr>"
        and ?m1.0 = ?m and ?w1.0 = "?w\<lparr>sent := [?rq]\<rparr>"] hw
    by (simp add: server_error_def)
  have 2: "get_dictionary example_py ''/api/v1/process_types'' ''process_types'' True ?m ?v =
      (Inl (ValueError ''Unexpected JSON structure in API response.''), ?m, ?v\<lparr>sent := [?rq]\<rparr>)"
    using get_dictionary_errors [where force = True and w = ?v
        and dictionary_name = "''process_types''" and py = example_py
        and u = "''/api/v1/process_types''" and m = ?m
        and r = "\<lparr>content = Json (JNum 5), response = number_answer\<rparr>"
        and ?m1.0 = ?m and ?w1.0 = "?v\<lparr>sent := [?rq]\<rparr>" and v = "JNum 5"] hv
    by (simp add: number_answer_def)
  have hx: "(True \<or> files ?x (dictionary_cache_path ?x ''process_types'') = None) \<and>
     do_api_call example_py ''/api/v1/process_types'' None ?m ?x =
       (Inr \<lparr>content = body single_name_answer, response = single_name_answer\<rparr>, ?m,
        ?x\<lparr>sent := [?rq]\<rparr>)"
    by (simp add: example_api_call) (simp add: single_name_answer_def)
  have hy: "(True \<or> files ?y (dictionary_cache_path ?y ''process_types'') = None) \<and>
     do_api_call example_py ''/api/v1/process_types'' None ?m ?y =
       (Inr \<lparr>content = body names_answer, response = names_answer\<rparr>, ?m,
        ?y\<lparr>sent := [?rq]\<rparr>)"
    by (simp add: example_api_call) (simp add: names_answer_def)
  have 3: "get_dictionary example_py ''/api/v1/process_types'' ''process_types'' True ?m ?x =
      (Inr (JStr ''Migration''), ?m,
       ?x\<lparr>sent := [?rq],
          files := (files (?x\<lparr>sent := [?rq]\<rparr>))(dictionary_cache_path ?x ''process_types'' \<mapsto>
             Json (JStr ''Migration''))\<rparr>)"
    using get_dictionary_errors [where force = True and w = ?x
        and dictionary_name = "''process_types''" and py = example_py
        and u = "''/api/v1/process_types''" and m = ?m
        and r = "\<lparr>content = body single_name_answer, response = single_name_answer\<rparr>"
        and ?m1.0 = ?m and ?w1.0 = "?x\<lparr>sent := [?rq]\<rparr>"
        and kvs = "[(''Name'', JStr ''Migration'')]"] hx
    by (simp add: single_name_answer_def)
  have 4: "get_dictionary example_py ''/api/v1/process_types'' ''process_types'' True ?m ?y =
      (Inr (JArr [JStr ''A'', JStr ''B'', JStr ''C'']), ?m,
       ?y\<lparr>sent := [?rq],
          files := (files (?y\<lparr>sent := [?rq]\<rparr>))(dictionary_cache_path ?y ''process_types'' \<mapsto>
             Json (JArr [JStr ''A'', JStr ''B'', JStr ''C'']))\<rparr>)"
    using get_dictionary_errors [where force = True and w = ?y
        and dictionary_name = "''process_types''" and py = example_py
        and u = "''/api/v1/process_types''" and m = ?m
        and r = "\<lparr>content = body names_answer, response = names_answer\<rparr>"
        and ?m1.0 = ?m and ?w1.0 = "?y\<lparr>sent := [?rq]\<rparr>"
        and records = "[[(''Name'', JStr ''A'')], [(''Name'', JStr ''B'')], [(''Name'', JStr ''C'')]]"] hy
    by (simp add: names_answer_def)
  show ?thesis
    unfolding 1 2 3 4 example_dictionary_path by (simp add: example_world_def)
qed

theorem names_without_name_field_witness:
  "get_dictionary example_py ''/api/v1/process_types'' ''process_types'' True
       (example_manager (Some example_token) (JArr []))
       (example_world credentials_file nameless_answer) =
     (Inr (JArr []), example_manager (Some example_token) (JArr []),
      (example_world credentials_file nameless_answer)
        \<lparr>sent := [Get ''https://dev5db.insysbio.com/api/v1/process_types'' None
                    [(''Authorization'', ''Bearer abc'')]],
         files := credentials_file(''/tmp/process_types.json'' \<mapsto> Json (JArr []))\<rparr>)
   \<and> get_dictionary example_py ''/api/v1/process_types'' ''process_types'' True
       (example_manager (Some example_token) (JArr []))
       (example_world credentials_file nameless_items_answer) =
     (Inr (JArr [JStr ''Migration'', JNull]), example_manager (Some example_token) (JArr []),
      (example_world credentials_file nameless_items_answer)
        \<lparr>sent := [Get ''https://dev5db.insysbio.com/api/v1/process_types'' None
                    [(''Authorization'', ''Bearer abc'')]],
         files := credentials_file(''/tmp/process_types.json'' \<mapsto>
                    Json (JArr [JStr ''Migration'', JNull]))\<rparr>)"
proof -
  let ?m = "example_manager (Some example_token) (JArr [])"
  let ?w = "example_world credentials_file nameless_answer"
  let ?v = "example_world credentials_file nameless_items_answer"
  let ?rq = "Get ''https://dev5db.insysbio.com/api/v1/process_types'' None
                    [(''Authorization'', ''Bearer abc'')]"
  have hw: "(True \<or> files ?w (dictionary_cache_path ?w ''process_types'') = None) \<and>
     do_api_call example_py ''/api/v1/process_types'' None ?m ?w =
       (Inr \<lparr>content = body nameless_answer, response = nameless_answer\<rparr>, ?m,
        ?w\<lparr>sent := [?rq]\<rparr>) \<and>
     status_code (response \<lparr>content = body nameless_answer, response = nameless_answer\<rparr>) = 200"
    by (simp add: example_api_call) (simp add: nameless_answer_def)
  have hv: "(True \<or> files ?v (dictionary_cache_path ?v ''process_types'') = None) \<and>
     do_api_call example_py ''/api/v1/process_types'' None ?m ?v =
       (Inr \<lparr>content = body nameless_items_answer, response = nameless_items_answer\<rparr>, ?m,
        ?v\<lparr>sent := [?rq]\<rparr>) \<and>
     status_code (response \<lparr>content = body nameless_items_answer,
        response = nameless_items_answer\<rparr>) = 200"
    by (simp add: example_api_call) (simp add: nameless_items_answer_def)
  have 1: "get_dictionary example_py ''/api/v1/process_types'' ''process_types'' True ?m ?w =
      (Inr (JArr []), ?m,
       ?w\<lparr>sent := [?rq],
          files := (files (?w\<lparr>sent := [?rq]\<rparr>))(dictionary_cache_path ?w ''process_types'' \<mapsto>
             Json (JArr []))\<rparr>)"
    using names_without_name_field [where force = True and w = ?w
        and dictionary_name = "''process_types''" and py = example_py
        and u = "''/api/v1/process_types''" and m = ?m
        and r = "\<lparr>content = body nameless_answer, response = nameless_answer\<rparr>"
        and ?m1.0 = ?m and ?w1.0 = "?w\<lparr>sent := [?rq]\<rparr>" and kvs = "[(''Id'', JNum 1)]"] hw
    by (simp add: nameless_answer_def)
  have 2: "get_dictionary example_py ''/api/v1/process_types'' ''process_types'' True ?m ?v =
      (Inr (JArr [JStr ''Migration'', JNull]), ?m,
       ?v\<lparr>sent := [?rq],
          files := (files (?v\<lparr>sent := [?rq]\<rparr>))(dictionary_cache_path ?v ''process_types'' \<mapsto>
             Json (JArr [JStr ''Migration'', JNull]))\<rparr>)"
    using names_without_name_field [where force = True and w = ?v
        and dictionary_name = "''process_types''" and py = example_py
        and u = "''/api/v1/process_types''" and m = ?m
        and r = "\<lparr>content = body nameless_items_answer, response = nameless_items_answer\<rparr>"
        and ?m1.0 = ?m and ?w1.0 = "?v\<lparr>sent := [?rq]\<rparr>"
        and records = "[[(''Name'', JStr ''Migration'')], [(''Id'', JNum 2)]]"] hv
    by (simp add: nameless_items_answer_def)
  show ?thesis
    unfolding 1 2 example_dictionary_path by (simp add: example_world_def)
qed

end
